theory Spec2Isabelle
  imports Complex_Main
begin

section \<open>Shader validation against the graphics context\<close>

text \<open>
  The renderer validates a vertex/fragment pair by compiling both against the WebGL
  context and linking them. JavaScript numbers are modelled as reals, a thrown
  \<^verbatim>\<open>Error(msg)\<close> as \<open>Inl msg\<close>, and every object with identity (GL objects,
  materials, geometries) by a natural-number name.
\<close>

definition nl :: string where
  "nl = [CHR 0x0A]"

text \<open>The two template literals that \<^verbatim>\<open>verifyShaderProgram\<close> puts in front of the sources.\<close>

definition vertex_preamble :: string where
  "vertex_preamble =
     ''#version 300 es'' @ nl @
     ''    precision mediump sampler2DArray;'' @ nl @
     ''    #define attribute in'' @ nl @
     ''    #define varying out'' @ nl @
     ''    #define texture2D texture'' @ nl @
     ''    precision highp float;'' @ nl @
     ''    precision highp int;'' @ nl @
     ''    #define HIGH_PRECISION'' @ nl @
     ''    #define SHADER_NAME ShaderMaterial'' @ nl @
     ''    #define USE_LOGDEPTHBUF'' @ nl @
     ''    #define USE_LOGDEPTHBUF_EXT'' @ nl @
     ''    uniform mat4 modelMatrix;'' @ nl @
     ''    uniform mat4 modelViewMatrix;'' @ nl @
     ''    uniform mat4 projectionMatrix;'' @ nl @
     ''    uniform mat4 viewMatrix;'' @ nl @
     ''    uniform mat3 normalMatrix;'' @ nl @
     ''    uniform vec3 cameraPosition;'' @ nl @
     ''    uniform bool isOrthographic;'' @ nl @
     ''    #ifdef USE_INSTANCING'' @ nl @
     ''        attribute mat4 instanceMatrix;'' @ nl @
     ''    #endif'' @ nl @
     ''    #ifdef USE_INSTANCING_COLOR'' @ nl @
     ''        attribute vec3 instanceColor;'' @ nl @
     ''    #endif'' @ nl @
     ''    attribute vec3 position;'' @ nl @
     ''    attribute vec3 normal;'' @ nl @
     ''    attribute vec2 uv;'' @ nl @
     ''    #ifdef USE_UV1'' @ nl @
     ''        attribute vec2 uv1;'' @ nl @
     ''    #endif'' @ nl @
     ''    #ifdef USE_UV2'' @ nl @
     ''        attribute vec2 uv2;'' @ nl @
     ''    #endif'' @ nl @
     ''    #ifdef USE_UV3'' @ nl @
     ''        attribute vec2 uv3;'' @ nl @
     ''    #endif'' @ nl @
     ''    #ifdef USE_TANGENT'' @ nl @
     ''        attribute vec4 tangent;'' @ nl @
     ''    #endif'' @ nl @
     ''    #if defined( USE_COLOR_ALPHA )'' @ nl @
     ''        attribute vec4 color;'' @ nl @
     ''    #elif defined( USE_COLOR )'' @ nl @
     ''        attribute vec3 color;'' @ nl @
     ''    #endif'' @ nl @
     ''    #if ( defined( USE_MORPHTARGETS ) && ! defined( MORPHTARGETS_TEXTURE ) )'' @ nl @
     ''        attribute vec3 morphTarget0;'' @ nl @
     ''        attribute vec3 morphTarget1;'' @ nl @
     ''        attribute vec3 morphTarget2;'' @ nl @
     ''        attribute vec3 morphTarget3;'' @ nl @
     ''        #ifdef USE_MORPHNORMALS'' @ nl @
     ''            attribute vec3 morphNormal0;'' @ nl @
     ''            attribute vec3 morphNormal1;'' @ nl @
     ''            attribute vec3 morphNormal2;'' @ nl @
     ''            attribute vec3 morphNormal3;'' @ nl @
     ''        #else'' @ nl @
     ''            attribute vec3 morphTarget4;'' @ nl @
     ''            attribute vec3 morphTarget5;'' @ nl @
     ''            attribute vec3 morphTarget6;'' @ nl @
     ''            attribute vec3 morphTarget7;'' @ nl @
     ''        #endif'' @ nl @
     ''    #endif'' @ nl @
     ''    #ifdef USE_SKINNING'' @ nl @
     ''        attribute vec4 skinIndex;'' @ nl @
     ''        attribute vec4 skinWeight;'' @ nl @
     ''    #endif'' @ nl @
     ''    #line 1'' @ nl @
     ''    ''"

definition fragment_preamble :: string where
  "fragment_preamble =
     ''#version 300 es'' @ nl @
     ''    #define varying in'' @ nl @
     ''    layout(location = 0) out highp vec4 pc_fragColor;'' @ nl @
     ''    #define gl_FragColor pc_fragColor'' @ nl @
     ''    #define gl_FragDepthEXT gl_FragDepth'' @ nl @
     ''    #define texture2D texture'' @ nl @
     ''    #define textureCube texture'' @ nl @
     ''    #define texture2DProj textureProj'' @ nl @
     ''    #define texture2DLodEXT textureLod'' @ nl @
     ''    #define texture2DProjLodEXT textureProjLod'' @ nl @
     ''    #define textureCubeLodEXT textureLod'' @ nl @
     ''    #define texture2DGradEXT textureGrad'' @ nl @
     ''    #define texture2DProjGradEXT textureProjGrad'' @ nl @
     ''    #define textureCubeGradEXT textureGrad'' @ nl @
     ''    precision highp float;'' @ nl @
     ''    precision highp int;'' @ nl @
     ''    #define HIGH_PRECISION'' @ nl @
     ''    #define SHADER_NAME ShaderMaterial'' @ nl @
     ''    #define LEGACY_LIGHTS'' @ nl @
     ''    #define USE_LOGDEPTHBUF'' @ nl @
     ''    #define USE_LOGDEPTHBUF_EXT'' @ nl @
     ''    uniform mat4 viewMatrix;'' @ nl @
     ''    uniform vec3 cameraPosition;'' @ nl @
     ''    uniform bool isOrthographic;'' @ nl @
     ''    #define OPAQUE'' @ nl @
     ''    vec4 LinearToLinear( in vec4 value ) {'' @ nl @
     ''        return value;'' @ nl @
     ''    }'' @ nl @
     ''    vec4 LinearTosRGB( in vec4 value ) {'' @ nl @
     ''         return vec4( mix( pow( value.rgb, vec3( 0.41666 ) ) * 1.055 - vec3( 0.055 ), value.rgb * 12.92, vec3( lessThanEqual( value.rgb, vec3( 0.0031308 ) ) ) ), value.a );'' @ nl @
     ''    }'' @ nl @
     ''    vec4 linearToOutputTexel( vec4 value ) { return LinearTosRGB( value ); }'' @ nl @
     ''    #line 1'' @ nl @
     ''    ''"

datatype shader_type = VERTEX_SHADER | FRAGMENT_SHADER

datatype gl_object = WebGLShader nat | WebGLProgram nat

text \<open>
  The verdicts of the graphics driver are a parameter of the model: whether a source of
  a given kind compiles, whether a pair links, and the info logs, which WebGL types as
  \<^verbatim>\<open>string | null\<close>.
\<close>

record gl_driver =
  COMPILE_STATUS :: "shader_type \<Rightarrow> string \<Rightarrow> bool"
  getShaderInfoLog :: "shader_type \<Rightarrow> string \<Rightarrow> string option"
  LINK_STATUS :: "string \<Rightarrow> string \<Rightarrow> bool"
  getProgramInfoLog :: "string \<Rightarrow> string \<Rightarrow> string option"

text \<open>
  The context keeps the objects created so far, the attachments, and the objects that
  \<^verbatim>\<open>deleteShader\<close> or \<^verbatim>\<open>deleteProgram\<close> was called on.
\<close>

record gl_context =
  nextName :: nat
  created :: "gl_object list"
  attached :: "(gl_object \<times> gl_object) list"
  deleted :: "gl_object list"

definition gl_createProgram :: "gl_context \<Rightarrow> gl_object \<times> gl_context" where
  "gl_createProgram gl =
     (WebGLProgram (nextName gl),
      gl\<lparr>nextName := Suc (nextName gl), created := created gl @ [WebGLProgram (nextName gl)]\<rparr>)"

definition gl_createShader :: "gl_context \<Rightarrow> gl_object \<times> gl_context" where
  "gl_createShader gl =
     (WebGLShader (nextName gl),
      gl\<lparr>nextName := Suc (nextName gl), created := created gl @ [WebGLShader (nextName gl)]\<rparr>)"

definition gl_attachShader :: "gl_object \<Rightarrow> gl_object \<Rightarrow> gl_context \<Rightarrow> gl_context" where
  "gl_attachShader program shader gl = gl\<lparr>attached := attached gl @ [(program, shader)]\<rparr>"

definition gl_deleteShader :: "gl_object \<Rightarrow> gl_context \<Rightarrow> gl_context" where
  "gl_deleteShader shader gl = gl\<lparr>deleted := deleted gl @ [shader]\<rparr>"

definition gl_deleteProgram :: "gl_object \<Rightarrow> gl_context \<Rightarrow> gl_context" where
  "gl_deleteProgram program gl = gl\<lparr>deleted := deleted gl @ [program]\<rparr>"

text \<open>\<^verbatim>\<open>a ?? b\<close> on a nullable string.\<close>

definition nullish :: "string option \<Rightarrow> string \<Rightarrow> string" where
  "nullish a b = (case a of Some s \<Rightarrow> s | None \<Rightarrow> b)"

text \<open>
  \<^verbatim>\<open>Renderer.createShader\<close>: create, upload, compile, and throw the info log when the
  compile status is false. The shader object exists in the context on both paths.
\<close>

definition createShader ::
  "gl_driver \<Rightarrow> string \<Rightarrow> shader_type \<Rightarrow> gl_context \<Rightarrow> (string + gl_object) \<times> gl_context" where
  "createShader drv src ty gl =
     (let (shader, gl1) = gl_createShader gl in
      if \<not> COMPILE_STATUS drv ty src
      then (Inl (nullish (getShaderInfoLog drv ty src) ''Cannot compile''), gl1)
      else (Inr shader, gl1))"

text \<open>
  \<^verbatim>\<open>Renderer.verifyShaderProgram\<close>, statement by statement. A throw leaves the function
  at once with the context as it is at that point.
\<close>

definition verifyShaderProgram ::
  "gl_driver \<Rightarrow> string \<Rightarrow> string \<Rightarrow> gl_context \<Rightarrow> (string + unit) \<times> gl_context" where
  "verifyShaderProgram drv vertex fragment gl =
     (let (program, gl0) = gl_createProgram gl;
          vertex' = vertex_preamble @ vertex;
          fragment' = fragment_preamble @ fragment in
      case createShader drv vertex' VERTEX_SHADER gl0 of
        (Inl e, gl1) \<Rightarrow> (Inl e, gl1)
      | (Inr vs, gl1) \<Rightarrow>
          (case createShader drv fragment' FRAGMENT_SHADER gl1 of
             (Inl e, gl2) \<Rightarrow> (Inl e, gl2)
           | (Inr fs, gl2) \<Rightarrow>
               (let gl3 = gl_attachShader program vs gl2;
                    gl4 = gl_attachShader program fs gl3;
                    gl5 = gl_deleteShader vs gl4;
                    gl6 = gl_deleteShader fs gl5 in
                if \<not> LINK_STATUS drv vertex' fragment'
                then (Inl (nullish (getProgramInfoLog drv vertex' fragment') ''Cannot link''), gl6)
                else (Inr (), gl_deleteProgram program gl6))))"

text \<open>The GL objects a call created and never passed to a delete call.\<close>

definition leaked :: "gl_context \<Rightarrow> gl_context \<Rightarrow> gl_object list" where
  "leaked gl gl' = filter (\<lambda>obj. obj \<notin> set (deleted gl')) (drop (length (created gl)) (created gl'))"

definition fresh_context :: gl_context where
  "fresh_context = \<lparr>nextName = 0, created = [], attached = [], deleted = []\<rparr>"

text \<open>
  A sample driver for concrete runs: every vertex shader compiles, a fragment shader
  compiles unless its text ends in a question mark, every pair links, and failures are
  reported with a one-line log.
\<close>

definition sample_driver :: gl_driver where
  "sample_driver =
     \<lparr>COMPILE_STATUS = (\<lambda>ty src. ty = VERTEX_SHADER \<or> last src \<noteq> CHR ''?''),
      getShaderInfoLog = (\<lambda>ty src. Some ''ERROR: 0:1: syntax error''),
      LINK_STATUS = (\<lambda>v f. True),
      getProgramInfoLog = (\<lambda>v f. Some [])\<rparr>"

section \<open>The three.js objects the renderer holds\<close>

text \<open>
  \<^verbatim>\<open>THREE.Clock\<close> belongs to the three.js library, which the repository only imports.
  It is modelled as the library defines it: a clock constructed with \<^verbatim>\<open>autoStart\<close>
  does not run yet; the first \<^verbatim>\<open>getDelta\<close> starts it and returns zero. The argument
  \<open>now\<close> is the reading of \<^verbatim>\<open>performance.now()\<close>, in milliseconds.
\<close>

record Clock =
  autoStart :: bool
  startTime :: real
  oldTime :: real
  elapsedTime :: real
  running :: bool

definition Clock_new :: Clock where
  "Clock_new = \<lparr>autoStart = True, startTime = 0, oldTime = 0, elapsedTime = 0, running = False\<rparr>"

definition Clock_start :: "real \<Rightarrow> Clock \<Rightarrow> Clock" where
  "Clock_start now c = c\<lparr>startTime := now, oldTime := now, elapsedTime := 0, running := True\<rparr>"

definition Clock_getDelta :: "real \<Rightarrow> Clock \<Rightarrow> real \<times> Clock" where
  "Clock_getDelta now c =
     (if autoStart c \<and> \<not> running c then (0, Clock_start now c)
      else if running c
      then (let diff = (now - oldTime c) / 1000
            in (diff, c\<lparr>oldTime := now, elapsedTime := elapsedTime c + diff\<rparr>))
      else (0, c))"

definition Clock_getElapsedTime :: "real \<Rightarrow> Clock \<Rightarrow> real \<times> Clock" where
  "Clock_getElapsedTime now c = (let (d, c') = Clock_getDelta now c in (elapsedTime c', c'))"

type_synonym Vector2 = "real \<times> real"

record uniforms =
  time :: real
  resolution :: Vector2
  mouse :: Vector2
  drag :: Vector2
  zoom :: real

record ShaderMaterial =
  uniforms :: uniforms
  mat_vertexShader :: string
  mat_fragmentShader :: string
  depthWrite :: bool
  depthTest :: bool

text \<open>
  A mesh refers to its geometry and material(s) by name; \<^verbatim>\<open>userData.material\<close> is
  absent unless the code stored it. Any other scene object is an \<open>Object3D\<close>.
\<close>

datatype material_ref = Single nat | Array "nat list"

datatype Object3D =
    Mesh (obj_name: string) (geometry: nat) (material: material_ref) (userData_material: "nat option")
  | Object3D (obj_name: string)

text \<open>
  The draw hook the editor installs is a closure over the material, the resolution read
  when the effect ran, and the variables its input listeners write. It is stored as
  these three captured values; \<open>hook_env\<close> names the listener environment.
\<close>

record draw_hook =
  hook_mat :: nat
  hook_resolution :: Vector2
  hook_env :: nat

record SceneWithCallback =
  scene_name :: string
  children :: "Object3D list"
  onDraw :: "draw_hook option"

definition SceneWithCallback_new :: SceneWithCallback where
  "SceneWithCallback_new = \<lparr>scene_name = [], children = [], onDraw = None\<rparr>"

datatype Camera = OrthographicCamera real real real real real real

record WebGLRenderer =
  glContext :: gl_context
  rendererSize :: Vector2
  renders :: nat
  compiles :: nat

record Renderer =
  threeRenderer :: "WebGLRenderer option"
  setInnerWidth :: real
  setInnerHeight :: real
  scene :: "SceneWithCallback option"
  camera :: "Camera option"
  enabled :: bool
  clock :: Clock

text \<open>
  Calls that release GPU-side resources or change the scene graph are logged in the
  order they happen.
\<close>

datatype gpu_call =
    GeometryDispose nat
  | MaterialDispose nat
  | RenderListsDispose
  | SceneRemove Object3D
  | SceneAdd Object3D

text \<open>
  The variables one run of the editor's effect declares and its two window listeners
  share: \<^verbatim>\<open>mousePos\<close>, \<^verbatim>\<open>mouseDrag\<close> and \<^verbatim>\<open>zoom\<close>.
\<close>

record listener_env =
  mousePos :: Vector2
  mouseDrag :: Vector2
  zoom_var :: real

text \<open>
  Everything the program can touch: the browser window, the renderer, the heap of
  materials and geometries, the window listeners registered so far, the animation
  frames requested and not yet run, and the React state of the editor component.
\<close>

record world =
  innerWidth :: real
  innerHeight :: real
  renderer :: Renderer
  materials :: "ShaderMaterial list"
  geometries :: nat
  gpu_log :: "gpu_call list"
  listeners :: "listener_env list"
  pendingFrames :: nat
  fragmentShader :: string
  fragmentShaderTemp :: string
  errors :: string
  showEditors :: bool
  geom :: nat

section \<open>The Renderer class\<close>

definition recreateCamera :: "world \<Rightarrow> world" where
  "recreateCamera w =
     w\<lparr>renderer := (renderer w)\<lparr>camera := Some (OrthographicCamera (- 1) 1 1 (- 1) 0.1 10.0)\<rparr>\<rparr>"

text \<open>What \<^verbatim>\<open>switchScene\<close> disposes for one child of the old scene.\<close>

fun dispose_child :: "Object3D \<Rightarrow> gpu_call list" where
  "dispose_child (Mesh n g (Array tm) u) = GeometryDispose g # map MaterialDispose tm"
| "dispose_child (Mesh n g (Single m) u) = [GeometryDispose g, MaterialDispose m]"
| "dispose_child (Object3D n) = []"

definition switchScene :: "string \<Rightarrow> world \<Rightarrow> world" where
  "switchScene name w =
     (if (case scene (renderer w) of None \<Rightarrow> True | Some s \<Rightarrow> scene_name s \<noteq> name)
      then
        (let w1 = (case scene (renderer w) of
                     Some s \<Rightarrow> w\<lparr>gpu_log := gpu_log w @ concat (map dispose_child (children s))\<rparr>
                   | None \<Rightarrow> w);
             w2 = (case threeRenderer (renderer w1) of
                     Some t \<Rightarrow> w1\<lparr>gpu_log := gpu_log w1 @ [RenderListsDispose]\<rparr>
                   | None \<Rightarrow> w1);
             w3 = w2\<lparr>renderer := (renderer w2)\<lparr>scene := Some (SceneWithCallback_new\<lparr>scene_name := name\<rparr>)\<rparr>\<rparr>
         in recreateCamera w3)
      else w)"

text \<open>
  The constructor: \<^verbatim>\<open>switchScene("empty")\<close> runs before the WebGL renderer exists,
  which is what the guard on \<^verbatim>\<open>this.threeRenderer\<close> in \<^verbatim>\<open>switchScene\<close> is for.
\<close>

definition Renderer_new :: "world \<Rightarrow> world" where
  "Renderer_new w =
     (let w0 = w\<lparr>renderer := \<lparr>threeRenderer = None, setInnerWidth = 0, setInnerHeight = 0,
                                scene = None, camera = None, enabled = False, clock = Clock_new\<rparr>\<rparr>;
          w1 = switchScene ''empty'' w0;
          w2 = w1\<lparr>renderer := (renderer w1)\<lparr>threeRenderer :=
                  Some \<lparr>glContext = fresh_context, rendererSize = (innerWidth w1, innerHeight w1),
                        renders = 0, compiles = 0\<rparr>\<rparr>\<rparr>;
          w3 = recreateCamera w2
      in w3\<lparr>renderer := (renderer w3)\<lparr>setInnerWidth := innerWidth w3, setInnerHeight := innerHeight w3\<rparr>\<rparr>)"

definition getElapsedTime :: "real \<Rightarrow> world \<Rightarrow> real \<times> world" where
  "getElapsedTime now w =
     (let (t, c) = Clock_getElapsedTime now (clock (renderer w))
      in (t, w\<lparr>renderer := (renderer w)\<lparr>clock := c\<rparr>\<rparr>))"

definition getResolution :: "world \<Rightarrow> Vector2" where
  "getResolution w = (innerWidth w, innerHeight w)"

text \<open>The message of the \<^verbatim>\<open>TypeError\<close> a method call on \<^verbatim>\<open>undefined\<close> throws.\<close>

definition TypeError :: "string \<Rightarrow> string" where
  "TypeError prop = ''Cannot read properties of undefined (reading '' @ [CHR 0x27] @ prop @ [CHR 0x27] @ '')''"

definition renderer_compile :: "world \<Rightarrow> string + world" where
  "renderer_compile w =
     (case threeRenderer (renderer w) of
        None \<Rightarrow> Inl (TypeError ''compile'')
      | Some t \<Rightarrow> Inr (w\<lparr>renderer := (renderer w)\<lparr>threeRenderer := Some (t\<lparr>compiles := Suc (compiles t)\<rparr>)\<rparr>\<rparr>))"

text \<open>The method \<^verbatim>\<open>verifyShaderProgram\<close> on the renderer's own context.\<close>

definition renderer_verifyShaderProgram ::
  "gl_driver \<Rightarrow> string \<Rightarrow> string \<Rightarrow> world \<Rightarrow> (string + unit) \<times> world" where
  "renderer_verifyShaderProgram drv vertex fragment w =
     (case threeRenderer (renderer w) of
        None \<Rightarrow> (Inl (TypeError ''getContext''), w)
      | Some t \<Rightarrow>
          (let (res, gl') = verifyShaderProgram drv vertex fragment (glContext t)
           in (res, w\<lparr>renderer := (renderer w)\<lparr>threeRenderer := Some (t\<lparr>glContext := gl'\<rparr>)\<rparr>\<rparr>)))"

definition onResize :: "world \<Rightarrow> world" where
  "onResize w =
     (let w1 = w\<lparr>renderer := (renderer w)\<lparr>
                  threeRenderer := map_option (\<lambda>t. t\<lparr>rendererSize := (innerWidth w, innerHeight w)\<rparr>)
                                     (threeRenderer (renderer w)),
                  setInnerWidth := innerWidth w, setInnerHeight := innerHeight w\<rparr>\<rparr>
      in recreateCamera w1)"

text \<open>The body of the draw hook, run with the values the closure captured.\<close>

definition onDraw_call :: "real \<Rightarrow> draw_hook \<Rightarrow> world \<Rightarrow> world" where
  "onDraw_call now h w =
     (let (t, w1) = getElapsedTime now w;
          env = listeners w1 ! hook_env h;
          res = hook_resolution h;
          u = \<lparr>time = t,
               resolution = (fst res, snd res),
               mouse = (fst (mousePos env) / fst res, snd (mousePos env) / snd res),
               drag = (fst (mouseDrag env) / fst res, snd (mouseDrag env) / snd res),
               zoom = zoom_var env\<rparr>;
          mat = materials w1 ! hook_mat h
      in w1\<lparr>materials := (materials w1)[hook_mat h := mat\<lparr>uniforms := u\<rparr>]\<rparr>)"

text \<open>
  One run of \<^verbatim>\<open>renderLoop\<close>: an animation frame that was requested fires. The frame
  timestamp the loop passes to the hook is not used by the hook and is left out. The
  loop runs only once the constructor has returned, when the WebGL renderer and the
  scene exist.
\<close>

definition renderLoop :: "real \<Rightarrow> world \<Rightarrow> world" where
  "renderLoop now w =
     (let w1 = (if setInnerWidth (renderer w) \<noteq> innerWidth w \<or> setInnerHeight (renderer w) \<noteq> innerHeight w
                then onResize w else w);
          w2 = w1\<lparr>renderer := (renderer w1)\<lparr>
                  threeRenderer := map_option (\<lambda>t. t\<lparr>renders := Suc (renders t)\<rparr>) (threeRenderer (renderer w1))\<rparr>\<rparr>;
          w3 = (case scene (renderer w2) of
                  Some s \<Rightarrow> (case onDraw s of Some h \<Rightarrow> onDraw_call now h w2 | None \<Rightarrow> w2)
                | None \<Rightarrow> w2)
      in if enabled (renderer w3) then w3\<lparr>pendingFrames := Suc (pendingFrames w3)\<rparr> else w3)"

definition enable :: "world \<Rightarrow> world" where
  "enable w = w\<lparr>renderer := (renderer w)\<lparr>enabled := True\<rparr>, pendingFrames := Suc (pendingFrames w)\<rparr>"

definition disable :: "world \<Rightarrow> world" where
  "disable w = w\<lparr>renderer := (renderer w)\<lparr>enabled := False\<rparr>\<rparr>"

section \<open>The editor component\<close>

text \<open>
  Two editions of the component drive the \<open>Renderer\<close>: \<^verbatim>\<open>src/components/App.tsx\<close>
  (\<open>App_tsx\<close>) and the earlier \<^verbatim>\<open>part_000\<close> (\<open>Part_000\<close>). They share the
  effect below except for how the previous quad is found and released.
\<close>

datatype variant = App_tsx | Part_000

definition vertexShader :: string where
  "vertexShader =
     nl @
     ''    varying vec2 iuv;'' @ nl @
     nl @
     ''    void main() {'' @ nl @
     ''        iuv = uv;'' @ nl @
     ''        gl_Position = vec4(position, 1.0);'' @ nl @
     ''    }'' @ nl @
     ''  ''"

definition initFragmentShader :: "variant \<Rightarrow> string" where
  "initFragmentShader var =
     (case var of
        App_tsx \<Rightarrow>
          ''varying vec2 iuv;'' @ nl @
          ''uniform float time;'' @ nl @
          ''uniform vec2 resolution;'' @ nl @
          ''uniform vec2 mouse;'' @ nl @
          nl @
          ''void main() {'' @ nl @
          ''  vec4 C = vec4(iuv.x, iuv.y, sin(time), 1.0);'' @ nl @
          ''  gl_FragColor = C;'' @ nl @
          ''}'' @ nl @
          ''  ''
      | Part_000 \<Rightarrow>
          ''varying vec2 iuv;'' @ nl @
          ''uniform float time;'' @ nl @
          ''uniform vec2 resolution;'' @ nl @
          nl @
          ''void main() {'' @ nl @
          ''    vec4 C = vec4(iuv.x, iuv.y, sin(time), 1.0);'' @ nl @
          ''    if(iuv.x < 0.1){'' @ nl @
          ''          C = vec4(0.0, 0.0, 1.0, 1.0);'' @ nl @
          ''    }'' @ nl @
          ''    if(iuv.y < 0.1){'' @ nl @
          ''          C = vec4(0.0, 0.0, 1.0, 1.0);'' @ nl @
          ''    }'' @ nl @
          ''    if(iuv.x > 0.9){'' @ nl @
          ''          C = vec4(0.0, 0.0, 1.0, 1.0);'' @ nl @
          ''    }'' @ nl @
          ''    if(iuv.y > 0.9){'' @ nl @
          ''          C = vec4(0.0, 0.0, 1.0, 1.0);'' @ nl @
          ''    }'' @ nl @
          ''    gl_FragColor = C;'' @ nl @
          ''}'' @ nl @
          ''  '')"

text \<open>
  \<^verbatim>\<open>Object3D.getObjectByName\<close> of three.js tests the receiver first and then its
  children in order, so a lookup on the scene can answer the scene itself.
\<close>

datatype object_ref = This | Child nat

fun find_name :: "string \<Rightarrow> Object3D list \<Rightarrow> nat option" where
  "find_name n [] = None"
| "find_name n (c # cs) = (if obj_name c = n then Some 0 else map_option Suc (find_name n cs))"

definition getObjectByName :: "SceneWithCallback \<Rightarrow> string \<Rightarrow> object_ref option" where
  "getObjectByName s n = (if scene_name s = n then Some This else map_option Child (find_name n (children s)))"

definition update_scene :: "(SceneWithCallback \<Rightarrow> SceneWithCallback) \<Rightarrow> world \<Rightarrow> world" where
  "update_scene f w = w\<lparr>renderer := (renderer w)\<lparr>scene := map_option f (scene (renderer w))\<rparr>\<rparr>"

text \<open>
  \<^verbatim>\<open>scene.remove(obj)\<close> looks \<open>obj\<close> up among the children; the scene is not its own
  child, so removing \<open>This\<close> changes nothing.
\<close>

definition scene_remove :: "SceneWithCallback \<Rightarrow> object_ref \<Rightarrow> world \<Rightarrow> world" where
  "scene_remove s ref w =
     (case ref of
        This \<Rightarrow> w
      | Child i \<Rightarrow>
          (update_scene (\<lambda>s'. s'\<lparr>children := take i (children s') @ drop (Suc i) (children s')\<rparr>) w)
            \<lparr>gpu_log := gpu_log w @ [SceneRemove (children s ! i)]\<rparr>)"

definition scene_add :: "Object3D \<Rightarrow> world \<Rightarrow> world" where
  "scene_add obj w =
     (update_scene (\<lambda>s. s\<lparr>children := children s @ [obj]\<rparr>) w)\<lparr>gpu_log := gpu_log w @ [SceneAdd obj]\<rparr>"

fun userData_of :: "SceneWithCallback \<Rightarrow> object_ref \<Rightarrow> nat option" where
  "userData_of s This = None"
| "userData_of s (Child i) =
     (case children s ! i of Mesh n g m u \<Rightarrow> u | Object3D n \<Rightarrow> None)"

text \<open>
  Finding and releasing the previous quad. \<open>App_tsx\<close> looks for the name it gives its
  quads, removes the object and disposes the material kept in \<^verbatim>\<open>userData\<close> (a
  \<^verbatim>\<open>TypeError\<close> when there is none). \<open>Part_000\<close> looks for \<^verbatim>\<open>"quad"\<close> and removes
  what it finds; it disposes nothing.
\<close>

definition remove_old_quad :: "variant \<Rightarrow> SceneWithCallback \<Rightarrow> world \<Rightarrow> (string + unit) \<times> world" where
  "remove_old_quad var s w =
     (case var of
        App_tsx \<Rightarrow>
          (case getObjectByName s ''quadX'' of
             None \<Rightarrow> (Inr (), w)
           | Some oldQuad \<Rightarrow>
               (let material = userData_of s oldQuad;
                    w1 = scene_remove s oldQuad w
                in case material of
                     None \<Rightarrow> (Inl (TypeError ''dispose''), w1)
                   | Some m \<Rightarrow> (Inr (), w1\<lparr>gpu_log := gpu_log w1 @ [MaterialDispose m]\<rparr>)))
      | Part_000 \<Rightarrow>
          (case getObjectByName s ''quad'' of
             None \<Rightarrow> (Inr (), w)
           | Some oldQuad \<Rightarrow> (Inr (), scene_remove s oldQuad w)))"

text \<open>
  The new quad. \<open>App_tsx\<close> reuses the memoised geometry, names the mesh and stores its
  material in \<^verbatim>\<open>userData\<close>; \<open>Part_000\<close> allocates a geometry and leaves name and
  \<^verbatim>\<open>userData\<close> at their defaults.
\<close>

definition new_quad :: "variant \<Rightarrow> nat \<Rightarrow> world \<Rightarrow> Object3D \<times> world" where
  "new_quad var mat w =
     (case var of
        App_tsx \<Rightarrow> (Mesh ''quadX'' (geom w) (Single mat) (Some mat), w)
      | Part_000 \<Rightarrow> (Mesh [] (geometries w) (Single mat) None, w\<lparr>geometries := Suc (geometries w)\<rparr>))"

text \<open>\<open>App_tsx\<close> has the call \<^verbatim>\<open>renderer.compile()\<close> commented out.\<close>

definition precompile :: "variant \<Rightarrow> world \<Rightarrow> string + world" where
  "precompile var w = (case var of App_tsx \<Rightarrow> Inr w | Part_000 \<Rightarrow> renderer_compile w)"

text \<open>The variables as the effect declares them, before any event.\<close>

definition new_listener_env :: listener_env where
  "new_listener_env = \<lparr>mousePos = (0.0, 0.0), mouseDrag = (0.0, 0.0), zoom_var = 1\<rparr>"

text \<open>The \<^verbatim>\<open>try\<close> block of the effect; a throw returns the world as it is at the throw.\<close>

definition try_block :: "variant \<Rightarrow> gl_driver \<Rightarrow> real \<Rightarrow> Vector2 \<Rightarrow> world \<Rightarrow> (string + unit) \<times> world" where
  "try_block var drv now res w =
     (case renderer_verifyShaderProgram drv vertexShader (fragmentShader w) w of
        (Inl e, w1) \<Rightarrow> (Inl e, w1)
      | (Inr _, w1) \<Rightarrow>
          (let (t, w2) = getElapsedTime now w1;
               mat = length (materials w2);
               w3 = w2\<lparr>materials := materials w2 @
                      [\<lparr>uniforms = \<lparr>time = t, resolution = (fst res, snd res), mouse = (0, 0),
                                     drag = (0, 0), zoom = 1.0\<rparr>,
                        mat_vertexShader = vertexShader, mat_fragmentShader = fragmentShader w2,
                        depthWrite = False, depthTest = False\<rparr>]\<rparr>
           in case scene (renderer w3) of
                None \<Rightarrow> (Inl (TypeError ''getObjectByName''), w3)
              | Some s \<Rightarrow>
                  (case remove_old_quad var s w3 of
                     (Inl e, w4) \<Rightarrow> (Inl e, w4)
                   | (Inr _, w4) \<Rightarrow>
                       (let (quad, w5) = new_quad var mat w4;
                            w6 = scene_add quad w5
                        in case precompile var w6 of
                             Inl e \<Rightarrow> (Inl e, w6)
                           | Inr w7 \<Rightarrow>
                               (let env = length (listeners w7);
                                    w8 = w7\<lparr>listeners := listeners w7 @ [new_listener_env]\<rparr>;
                                    w9 = update_scene (\<lambda>s'. s'\<lparr>onDraw :=
                                           Some \<lparr>hook_mat = mat, hook_resolution = res, hook_env = env\<rparr>\<rparr>) w8
                                in (Inr (), w9))))))"

text \<open>The effect of the component, run after a render in which \<^verbatim>\<open>fragmentShader\<close> changed.\<close>

definition effect :: "variant \<Rightarrow> gl_driver \<Rightarrow> real \<Rightarrow> world \<Rightarrow> world" where
  "effect var drv now w =
     (let w1 = switchScene ''quad'' w;
          res = getResolution w1
      in case try_block var drv now res w1 of
           (Inl e, w2) \<Rightarrow> w2\<lparr>errors := e\<rparr>
         | (Inr _, w2) \<Rightarrow> w2\<lparr>errors := []\<rparr>)"

definition cleanup :: "world \<Rightarrow> world" where
  "cleanup w = update_scene (\<lambda>s. s\<lparr>onDraw := None\<rparr>) w"

text \<open>
  The Compile button calls \<^verbatim>\<open>setFragmentShader(fragmentShaderTemp)\<close>. React compares
  the dependency \<^verbatim>\<open>[fragmentShader]\<close> with its previous value: when the text is the
  same nothing re-runs; otherwise the cleanup of the previous effect runs and then the
  effect.
\<close>

definition compile_click :: "variant \<Rightarrow> gl_driver \<Rightarrow> real \<Rightarrow> world \<Rightarrow> world" where
  "compile_click var drv now w =
     (if fragmentShaderTemp w = fragmentShader w then w
      else effect var drv now (cleanup (w\<lparr>fragmentShader := fragmentShaderTemp w\<rparr>)))"

definition wheel_listener :: "real \<Rightarrow> listener_env \<Rightarrow> listener_env" where
  "wheel_listener deltaY e = e\<lparr>zoom_var := zoom_var e - deltaY * 0.001\<rparr>"

definition mousemove_listener :: "real \<Rightarrow> real \<Rightarrow> nat \<Rightarrow> listener_env \<Rightarrow> listener_env" where
  "mousemove_listener clientX clientY buttons e =
     (let newPos = (clientX, clientY);
          deltaPos = (fst newPos - fst (mousePos e), snd newPos - snd (mousePos e));
          e1 = (if buttons = 1
                then e\<lparr>mouseDrag := (fst (mouseDrag e) + fst deltaPos, snd (mouseDrag e) + snd deltaPos)\<rparr>
                else e)
      in e1\<lparr>mousePos := newPos\<rparr>)"

text \<open>
  What can happen to the running page. Every listener registered on the window so far
  receives each wheel and mouse event. The editor and the Compile button exist only
  while \<^verbatim>\<open>showEditors\<close> holds.
\<close>

datatype event =
    Edit string
  | Compile
  | SaveAs
  | ToggleEditors
  | Wheel real
  | MouseMove real real nat
  | Resize real real
  | Frame

definition step :: "variant \<Rightarrow> gl_driver \<Rightarrow> real \<Rightarrow> event \<Rightarrow> world \<Rightarrow> world" where
  "step var drv now ev w =
     (case ev of
        Edit v \<Rightarrow> if showEditors w then w\<lparr>fragmentShaderTemp := v\<rparr> else w
      | Compile \<Rightarrow> if showEditors w then compile_click var drv now w else w
      | SaveAs \<Rightarrow> w
      | ToggleEditors \<Rightarrow> w\<lparr>showEditors := \<not> showEditors w\<rparr>
      | Wheel deltaY \<Rightarrow> w\<lparr>listeners := map (wheel_listener deltaY) (listeners w)\<rparr>
      | MouseMove clientX clientY buttons \<Rightarrow>
          w\<lparr>listeners := map (mousemove_listener clientX clientY buttons) (listeners w)\<rparr>
      | Resize iw ih \<Rightarrow> w\<lparr>innerWidth := iw, innerHeight := ih\<rparr>
      | Frame \<Rightarrow> if pendingFrames w = 0 then w
                 else renderLoop now (w\<lparr>pendingFrames := pendingFrames w - 1\<rparr>))"

text \<open>
  \<^verbatim>\<open>main.tsx\<close>: construct the renderer, enable it, render the component (initial
  state, memoised geometry in \<open>App_tsx\<close>) and run its effect for the first time. This
  is the production behaviour; a development build of React runs the first effect
  twice under \<^verbatim>\<open>StrictMode\<close>.
\<close>

definition page :: "real \<Rightarrow> real \<Rightarrow> world" where
  "page iw ih =
     \<lparr>innerWidth = iw, innerHeight = ih,
      renderer = \<lparr>threeRenderer = None, setInnerWidth = 0, setInnerHeight = 0, scene = None,
                  camera = None, enabled = False, clock = Clock_new\<rparr>,
      materials = [], geometries = 0, gpu_log = [], listeners = [], pendingFrames = 0,
      fragmentShader = [], fragmentShaderTemp = [], errors = [], showEditors = True, geom = 0\<rparr>"

definition first_render :: "variant \<Rightarrow> world \<Rightarrow> world" where
  "first_render var w =
     (let w1 = w\<lparr>fragmentShader := initFragmentShader var, fragmentShaderTemp := initFragmentShader var,
                 errors := [], showEditors := True\<rparr>
      in case var of
           App_tsx \<Rightarrow> w1\<lparr>geom := geometries w1, geometries := Suc (geometries w1)\<rparr>
         | Part_000 \<Rightarrow> w1)"

definition main :: "variant \<Rightarrow> gl_driver \<Rightarrow> real \<Rightarrow> real \<Rightarrow> real \<Rightarrow> world" where
  "main var drv iw ih now = effect var drv now (first_render var (enable (Renderer_new (page iw ih))))"

fun run :: "variant \<Rightarrow> gl_driver \<Rightarrow> (real \<times> event) list \<Rightarrow> world \<Rightarrow> world" where
  "run var drv [] w = w"
| "run var drv ((now, ev) # evs) w = run var drv evs (step var drv now ev w)"

inductive reachable :: "variant \<Rightarrow> gl_driver \<Rightarrow> world \<Rightarrow> bool" for var drv where
  reach_main: "reachable var drv (main var drv iw ih now)"
| reach_step: "reachable var drv w \<Longrightarrow> reachable var drv (step var drv now ev w)"

section \<open>The canvas edition of the editor\<close>




section \<open>Notions used to state the properties\<close>

text \<open>A driver that rejects every shader and reports no log.\<close>

definition silent_driver :: gl_driver where
  "silent_driver =
     \<lparr>COMPILE_STATUS = (\<lambda>ty src. False),
      getShaderInfoLog = (\<lambda>ty src. None),
      LINK_STATUS = (\<lambda>v f. True),
      getProgramInfoLog = (\<lambda>v f. None)\<rparr>"

text \<open>
  The verdict on a fragment source and the diagnostic the editor shows for it; the
  verdict does not depend on the state of the context.
\<close>

definition validation :: "gl_driver \<Rightarrow> string \<Rightarrow> string + unit" where
  "validation drv fragment = fst (verifyShaderProgram drv vertexShader fragment fresh_context)"

definition diagnostic :: "gl_driver \<Rightarrow> string \<Rightarrow> string" where
  "diagnostic drv fragment = (case validation drv fragment of Inl e \<Rightarrow> e | Inr _ \<Rightarrow> [])"

text \<open>The drawables of the active scene, and the quads as each edition builds them.\<close>

definition drawables :: "world \<Rightarrow> Object3D list" where
  "drawables w = (case scene (renderer w) of None \<Rightarrow> [] | Some s \<Rightarrow> children s)"

definition draw_hook_of :: "world \<Rightarrow> draw_hook option" where
  "draw_hook_of w = (case scene (renderer w) of None \<Rightarrow> None | Some s \<Rightarrow> onDraw s)"

fun is_quad :: "variant \<Rightarrow> Object3D \<Rightarrow> bool" where
  "is_quad App_tsx (Mesh n g (Single m) (Some m')) = (n = ''quadX'' \<and> m' = m)"
| "is_quad Part_000 (Mesh n g (Single m) None) = (n = [])"
| "is_quad var obj = False"

text \<open>
  What holds of the page from the first run of the effect on: the renderer is
  constructed, the active scene is the quad scene, its children are quads of this
  edition, and an installed hook refers to an existing material and environment.
\<close>

definition ready :: "variant \<Rightarrow> world \<Rightarrow> bool" where
  "ready var w =
     (case (threeRenderer (renderer w), scene (renderer w)) of
        (Some t, Some s) \<Rightarrow>
          scene_name s = ''quad'' \<and> list_all (is_quad var) (children s)
          \<and> (var = App_tsx \<longrightarrow> length (children s) \<le> 1)
          \<and> (case onDraw s of
                None \<Rightarrow> True
              | Some h \<Rightarrow> hook_env h < length (listeners w) \<and> hook_mat h < length (materials w))
      | _ \<Rightarrow> False)"

definition page_inv :: "variant \<Rightarrow> gl_driver \<Rightarrow> world \<Rightarrow> bool" where
  "page_inv var drv w =
     (ready var w \<and> errors w = diagnostic drv (fragmentShader w)
      \<and> (validation drv (fragmentShader w) = Inr () \<longrightarrow> drawables w \<noteq> []))"

text \<open>
  The page as \<^verbatim>\<open>main.tsx\<close> leaves it on the sample driver, in a window of \<open>iw\<close> by
  \<open>ih\<close> pixels, when the effect first ran at time \<open>now\<close>.
\<close>

definition sample_page :: "variant \<Rightarrow> real \<Rightarrow> real \<Rightarrow> real \<Rightarrow> world" where
 "sample_page var iw ih now = 
 \<lparr>innerWidth = iw, innerHeight = ih,
  renderer = \<lparr>threeRenderer = Some \<lparr>glContext = \<lparr>nextName = 3, created = [WebGLProgram 0, WebGLShader 1, WebGLShader 2],
        attached = [(WebGLProgram 0, WebGLShader 1), (WebGLProgram 0, WebGLShader 2)],
        deleted = [WebGLShader 1, WebGLShader 2, WebGLProgram 0]\<rparr>, rendererSize = (iw, ih), renders = 0,
        compiles = (case var of App_tsx \<Rightarrow> 0 | Part_000 \<Rightarrow> 1)\<rparr>,
     setInnerWidth = iw, setInnerHeight = ih,
     scene = Some \<lparr>scene_name = ''quad'',
        children = [case var of App_tsx \<Rightarrow> Mesh ''quadX'' 0 (Single 0) (Some 0) | Part_000 \<Rightarrow> Mesh [] 0 (Single 0) None],
        onDraw = Some \<lparr>hook_mat = 0, hook_resolution = (iw, ih), hook_env = 0\<rparr>\<rparr>,
     camera = Some (OrthographicCamera (- 1) 1 1 (- 1) 0.1 10.0), enabled = True,
     clock = \<lparr>autoStart = True, startTime = now, oldTime = now, elapsedTime = 0, running = True\<rparr>\<rparr>,
  materials = [\<lparr>uniforms = \<lparr>time = 0, resolution = (iw, ih), mouse = (0, 0), drag = (0, 0), zoom = 1\<rparr>,
      mat_vertexShader = vertexShader, mat_fragmentShader = initFragmentShader var,
      depthWrite = False, depthTest = False\<rparr>],
  geometries = 1,
  gpu_log = [RenderListsDispose, SceneAdd (case var of App_tsx \<Rightarrow> Mesh ''quadX'' 0 (Single 0) (Some 0) | Part_000 \<Rightarrow> Mesh [] 0 (Single 0) None)],
  listeners = [new_listener_env], pendingFrames = 1,
  fragmentShader = initFragmentShader var, fragmentShaderTemp = initFragmentShader var,
  errors = [], showEditors = True, geom = 0\<rparr>"



text \<open>A clock that has been started and whose total is the time since its start.\<close>

definition clock_started :: "Clock \<Rightarrow> bool" where
  "clock_started c = (running c \<and> elapsedTime c = (oldTime c - startTime c) / 1000)"

text \<open>The materials a mesh refers to.\<close>

fun materials_of :: "material_ref \<Rightarrow> nat list" where
  "materials_of (Single m) = [m]"
| "materials_of (Array tm) = tm"

section \<open>Properties of the validation pass\<close>

lemma verifyShaderProgram_fst:
  "fst (verifyShaderProgram drv v f gl) =
     (if \<not> COMPILE_STATUS drv VERTEX_SHADER (vertex_preamble @ v)
      then Inl (nullish (getShaderInfoLog drv VERTEX_SHADER (vertex_preamble @ v)) ''Cannot compile'')
      else if \<not> COMPILE_STATUS drv FRAGMENT_SHADER (fragment_preamble @ f)
      then Inl (nullish (getShaderInfoLog drv FRAGMENT_SHADER (fragment_preamble @ f)) ''Cannot compile'')
      else if \<not> LINK_STATUS drv (vertex_preamble @ v) (fragment_preamble @ f)
      then Inl (nullish (getProgramInfoLog drv (vertex_preamble @ v) (fragment_preamble @ f)) ''Cannot link'')
      else Inr ())"
  by (simp add: verifyShaderProgram_def createShader_def gl_createShader_def gl_createProgram_def Let_def)

text \<open>
  On the success path every object the call created has been passed to a delete call;
  on every failing path the program object is created and no delete call names it.
\<close>

lemma verifyShaderProgram_success_deletes_all:
  assumes "fst (verifyShaderProgram drv v f gl) = Inr ()"
  shows "leaked gl (snd (verifyShaderProgram drv v f gl)) = []"
  using assms
  by (simp add: leaked_def verifyShaderProgram_def createShader_def gl_createShader_def
      gl_createProgram_def gl_attachShader_def gl_deleteShader_def gl_deleteProgram_def Let_def
      split: if_splits)

lemma verifyShaderProgram_failure_deletes_no_program:
  assumes "fst (verifyShaderProgram drv v f gl) = Inl e"
  shows "WebGLProgram (nextName gl) \<in> set (created (snd (verifyShaderProgram drv v f gl)))
    \<and> WebGLProgram (nextName gl) \<notin>
        set (drop (length (deleted gl)) (deleted (snd (verifyShaderProgram drv v f gl))))"
  using assms
  by (simp add: verifyShaderProgram_def createShader_def gl_createShader_def
      gl_createProgram_def gl_attachShader_def gl_deleteShader_def gl_deleteProgram_def Let_def
      split: if_splits)

text \<open>
  C3, at a failing input. The claim has \<^verbatim>\<open>verifyShaderProgram\<close> delete the program and
  both shaders on every path. With a fragment source the driver rejects, the throw in
  \<^verbatim>\<open>createShader\<close> leaves the function before any delete call: the program object and
  the two shader objects stay in the context, none of them deleted.
\<close>

theorem verifyShaderProgram_leaks_when_fragment_is_rejected:
  "verifyShaderProgram sample_driver vertexShader ''void main() { gl_FragColor = ?'' fresh_context =
     (Inl ''ERROR: 0:1: syntax error'',
      \<lparr>nextName = 3, created = [WebGLProgram 0, WebGLShader 1, WebGLShader 2],
       attached = [], deleted = []\<rparr>)
   \<and> leaked fresh_context
         (snd (verifyShaderProgram sample_driver vertexShader ''void main() { gl_FragColor = ?'' fresh_context)) =
       [WebGLProgram 0, WebGLShader 1, WebGLShader 2]"
  by (simp add: leaked_def verifyShaderProgram_def createShader_def gl_createShader_def
      gl_createProgram_def Let_def sample_driver_def fresh_context_def nullish_def)

text \<open>
  C7 as stated fails: the claim makes the raised message the info log the driver
  reported. When the driver reports no log (\<^verbatim>\<open>getShaderInfoLog\<close> answers \<^verbatim>\<open>null\<close>),
  the message is the fixed text of the \<^verbatim>\<open>??\<close> fallback.
\<close>

theorem verifyShaderProgram_message_without_log:
  "fst (verifyShaderProgram silent_driver vertexShader (initFragmentShader App_tsx) fresh_context) =
     Inl ''Cannot compile''
   \<and> getShaderInfoLog silent_driver VERTEX_SHADER (vertex_preamble @ vertexShader) = None"
  by (simp add: verifyShaderProgram_def createShader_def gl_createShader_def gl_createProgram_def
      Let_def silent_driver_def nullish_def)

text \<open>
  C7, amended: \<^verbatim>\<open>verifyShaderProgram\<close> raises exactly when the vertex compile, the
  fragment compile or the link fails, tested in this order; the message is the info log
  of the first failing step, or \<^verbatim>\<open>"Cannot compile"\<close> (for a compile step) or
  \<^verbatim>\<open>"Cannot link"\<close> (for the link step) when the driver reports no log for it; when all
  three steps succeed it returns no value.
\<close>

theorem verifyShaderProgram_raises_log_of_first_failing_step:
  "fst (verifyShaderProgram drv v f gl) =
     (if \<not> COMPILE_STATUS drv VERTEX_SHADER (vertex_preamble @ v)
      then Inl (case getShaderInfoLog drv VERTEX_SHADER (vertex_preamble @ v) of
                  Some msg \<Rightarrow> msg | None \<Rightarrow> ''Cannot compile'')
      else if \<not> COMPILE_STATUS drv FRAGMENT_SHADER (fragment_preamble @ f)
      then Inl (case getShaderInfoLog drv FRAGMENT_SHADER (fragment_preamble @ f) of
                  Some msg \<Rightarrow> msg | None \<Rightarrow> ''Cannot compile'')
      else if \<not> LINK_STATUS drv (vertex_preamble @ v) (fragment_preamble @ f)
      then Inl (case getProgramInfoLog drv (vertex_preamble @ v) (fragment_preamble @ f) of
                  Some msg \<Rightarrow> msg | None \<Rightarrow> ''Cannot link'')
      else Inr ())"
  by (simp add: verifyShaderProgram_fst nullish_def)

section \<open>Properties of the input listeners\<close>





section \<open>Invariants of the running page\<close>

lemma validation_any_context:
  "fst (verifyShaderProgram drv vertexShader f gl) = validation drv f"
  by (simp add: validation_def verifyShaderProgram_fst)

lemma diagnostic_Inl: "validation drv f = Inl e \<Longrightarrow> diagnostic drv f = e"
  by (simp add: diagnostic_def)

lemma diagnostic_Inr: "validation drv f = Inr u \<Longrightarrow> diagnostic drv f = []"
  by (simp add: diagnostic_def)

lemma switchScene_same:
  "scene (renderer w) = Some s \<Longrightarrow> scene_name s = name \<Longrightarrow> switchScene name w = w"
  by (simp add: switchScene_def)

lemma renderer_verify:
  "threeRenderer (renderer w) = Some t \<Longrightarrow>
   renderer_verifyShaderProgram drv vertexShader f w =
     (validation drv f,
      w\<lparr>renderer := (renderer w)\<lparr>threeRenderer :=
          Some (t\<lparr>glContext := snd (verifyShaderProgram drv vertexShader f (glContext t))\<rparr>)\<rparr>\<rparr>)"
  by (simp add: renderer_verifyShaderProgram_def validation_any_context case_prod_beta)

lemma getElapsedTime_unfold:
  "getElapsedTime now w =
     (fst (Clock_getElapsedTime now (clock (renderer w))),
      w\<lparr>renderer := (renderer w)\<lparr>clock := snd (Clock_getElapsedTime now (clock (renderer w)))\<rparr>\<rparr>)"
  by (simp add: getElapsedTime_def case_prod_beta)

lemma try_block_fail:
  assumes "threeRenderer (renderer w) = Some t" and "validation drv (fragmentShader w) = Inl e"
  shows "try_block var drv now res w =
     (Inl e, w\<lparr>renderer := (renderer w)\<lparr>threeRenderer :=
          Some (t\<lparr>glContext := snd (verifyShaderProgram drv vertexShader (fragmentShader w) (glContext t))\<rparr>)\<rparr>\<rparr>)"
  using assms by (simp add: try_block_def renderer_verify)

lemma readyE:
  assumes "ready var w"
  obtains t s where "threeRenderer (renderer w) = Some t" "scene (renderer w) = Some s"
    "scene_name s = ''quad''" "list_all (is_quad var) (children s)"
    "var = App_tsx \<Longrightarrow> length (children s) \<le> 1"
    "case onDraw s of None \<Rightarrow> True
     | Some h \<Rightarrow> hook_env h < length (listeners w) \<and> hook_mat h < length (materials w)"
  using assms by (auto simp: ready_def split: option.splits)

lemma switchScene_ready:
  assumes "threeRenderer (renderer w) = Some t"
    and "ready var w \<or> (\<forall>s. scene (renderer w) = Some s \<longrightarrow> scene_name s \<noteq> ''quad'')"
  shows "ready var (switchScene ''quad'' w)"
  using assms
  by (auto simp: ready_def switchScene_def recreateCamera_def SceneWithCallback_new_def Let_def
      split: option.splits)

lemma is_quad_App_tsx: "is_quad App_tsx c \<Longrightarrow> \<exists>g m. c = Mesh ''quadX'' g (Single m) (Some m)"
  by (auto elim: is_quad.elims)

lemma try_block_fail_ready:
  assumes "ready var w" and "validation drv (fragmentShader w) = Inl e"
  shows "case try_block var drv now res w of
           (r, w') \<Rightarrow> ready var w' \<and> fragmentShader w' = fragmentShader w \<and> r = Inl e"
proof -
  from assms(1) obtain t where t: "threeRenderer (renderer w) = Some t" by (rule readyE)
  show ?thesis using assms(1) t
    by (auto simp: try_block_fail [OF t assms(2)] ready_def split: option.splits)
qed

lemmas try_block_defs =
  try_block_def renderer_verify getElapsedTime_unfold Let_def remove_old_quad_def
  getObjectByName_def scene_remove_def new_quad_def scene_add_def update_scene_def
  precompile_def renderer_compile_def

lemma try_block_ok_ready_Part_000:
  assumes "ready Part_000 w" and "validation drv (fragmentShader w) = Inr u"
  shows "case try_block Part_000 drv now res w of
           (r, w') \<Rightarrow> ready Part_000 w' \<and> fragmentShader w' = fragmentShader w \<and> r = Inr ()
             \<and> drawables w' \<noteq> []"
proof -
  from assms(1) obtain t s where ts: "threeRenderer (renderer w) = Some t"
    "scene (renderer w) = Some s" "scene_name s = ''quad''"
    "list_all (is_quad Part_000) (children s)" by (rule readyE)
  show ?thesis using ts assms(2)
    by (simp add: try_block_defs ready_def drawables_def)
qed

lemma try_block_ok_ready_App_tsx:
  assumes "ready App_tsx w" and "validation drv (fragmentShader w) = Inr u"
  shows "case try_block App_tsx drv now res w of
           (r, w') \<Rightarrow> ready App_tsx w' \<and> fragmentShader w' = fragmentShader w \<and> r = Inr ()
             \<and> length (drawables w') = 1"
proof -
  from assms(1) obtain t s where ts: "threeRenderer (renderer w) = Some t"
    "scene (renderer w) = Some s" "scene_name s = ''quad''"
    "list_all (is_quad App_tsx) (children s)" "length (children s) \<le> 1" by (rule readyE) simp
  consider "children s = []" | g m where "children s = [Mesh ''quadX'' g (Single m) (Some m)]"
    using ts(4,5) by (cases "children s") (auto dest: is_quad_App_tsx)
  then show ?thesis
  proof cases
    case 1
    then show ?thesis using ts assms(2)
      by (simp add: try_block_defs ready_def drawables_def)
  next
    case 2
    then show ?thesis using ts assms(2)
      by (simp add: try_block_defs ready_def drawables_def)
  qed
qed

lemma try_block_ready:
  assumes "ready var w"
  shows "case try_block var drv now res w of
           (r, w') \<Rightarrow> ready var w' \<and> fragmentShader w' = fragmentShader w
             \<and> r = validation drv (fragmentShader w) \<and> (r = Inr () \<longrightarrow> drawables w' \<noteq> [])"
proof (cases "validation drv (fragmentShader w)")
  case (Inl e)
  then show ?thesis
    using try_block_fail_ready [OF assms Inl, of now res] by (simp split: prod.splits)
next
  case (Inr u)
  show ?thesis
  proof (cases var)
    case App_tsx
    then show ?thesis
      using try_block_ok_ready_App_tsx [of w drv u now res] assms Inr
      by (auto split: prod.splits)
  next
    case Part_000
    then show ?thesis
      using try_block_ok_ready_Part_000 [of w drv u now res] assms Inr
      by (simp split: prod.splits)
  qed
qed

lemma ready_frame:
  assumes "ready var w"
    and "(threeRenderer (renderer w') = None) = (threeRenderer (renderer w) = None)"
    and "scene (renderer w') = scene (renderer w)"
    and "length (listeners w') = length (listeners w)"
    and "length (materials w') = length (materials w)"
  shows "ready var w'"
  using assms by (auto simp: ready_def split: option.splits)

lemma switchScene_frame:
  "fragmentShader (switchScene n w) = fragmentShader w"
  "threeRenderer (renderer (switchScene n w)) = threeRenderer (renderer w)"
  by (simp_all add: switchScene_def recreateCamera_def Let_def split: option.splits)

lemma page_inv_errors:
  assumes "ready var w'" and "r = validation drv (fragmentShader w')" and "r = Inr () \<longrightarrow> drawables w' \<noteq> []"
  shows "page_inv var drv (case r of Inl e \<Rightarrow> w'\<lparr>errors := e\<rparr> | Inr _ \<Rightarrow> w'\<lparr>errors := []\<rparr>)"
proof (cases r)
  case (Inl e)
  have "ready var (w'\<lparr>errors := e\<rparr>)" by (rule ready_frame [OF assms(1)]) simp_all
  moreover have "diagnostic drv (fragmentShader w') = e" using Inl assms(2) by (simp add: diagnostic_def)
  moreover have "validation drv (fragmentShader w') \<noteq> Inr ()" using Inl assms(2) by simp
  ultimately show ?thesis using Inl by (simp add: page_inv_def)
next
  case (Inr u)
  have "ready var (w'\<lparr>errors := []\<rparr>)" by (rule ready_frame [OF assms(1)]) simp_all
  moreover have "diagnostic drv (fragmentShader w') = []" using Inr assms(2) by (simp add: diagnostic_def)
  moreover have "drawables (w'\<lparr>errors := []\<rparr>) \<noteq> []" using Inr assms(3) by (simp add: drawables_def)
  ultimately show ?thesis using Inr by (simp add: page_inv_def)
qed

lemma effect_page_inv:
  assumes "threeRenderer (renderer w) = Some t"
    and "ready var w \<or> (\<forall>s. scene (renderer w) = Some s \<longrightarrow> scene_name s \<noteq> ''quad'')"
  shows "page_inv var drv (effect var drv now w) \<and> fragmentShader (effect var drv now w) = fragmentShader w"
proof -
  define w1 where "w1 = switchScene ''quad'' w"
  have r: "ready var w1" unfolding w1_def using assms by (rule switchScene_ready)
  have f: "fragmentShader w1 = fragmentShader w" unfolding w1_def by (rule switchScene_frame)
  obtain r' w' where tb: "try_block var drv now (getResolution w1) w1 = (r', w')"
    by (cases "try_block var drv now (getResolution w1) w1")
  have "case (r', w') of (r, w') \<Rightarrow> ready var w' \<and> fragmentShader w' = fragmentShader w1
             \<and> r = validation drv (fragmentShader w1) \<and> (r = Inr () \<longrightarrow> drawables w' \<noteq> [])"
    using try_block_ready [OF r, of drv now "getResolution w1"] unfolding tb .
  then have w': "ready var w'" "fragmentShader w' = fragmentShader w1"
    "r' = validation drv (fragmentShader w')" "r' = Inr () \<longrightarrow> drawables w' \<noteq> []"
    by simp_all
  have eff: "effect var drv now w = (case r' of Inl e \<Rightarrow> w'\<lparr>errors := e\<rparr> | Inr _ \<Rightarrow> w'\<lparr>errors := []\<rparr>)"
    unfolding effect_def Let_def w1_def [symmetric] tb by simp
  have "page_inv var drv (effect var drv now w)"
    unfolding eff using w'(1,3,4) by (rule page_inv_errors)
  moreover have "fragmentShader (effect var drv now w) = fragmentShader w"
    unfolding eff using w'(2) f by (cases r') simp_all
  ultimately show ?thesis ..
qed


lemma cleanup_ready: "ready var w \<Longrightarrow> ready var (cleanup w)"
  by (auto simp: ready_def cleanup_def update_scene_def split: option.splits)

lemma compile_click_page_inv:
  assumes "page_inv var drv w"
  shows "page_inv var drv (compile_click var drv now w)
    \<and> fragmentShader (compile_click var drv now w) = fragmentShaderTemp w"
proof (cases "fragmentShaderTemp w = fragmentShader w")
  case True
  then show ?thesis using assms by (simp add: compile_click_def)
next
  case False
  define w0 where "w0 = cleanup (w\<lparr>fragmentShader := fragmentShaderTemp w\<rparr>)"
  have "ready var w" using assms by (simp add: page_inv_def)
  then have "ready var (w\<lparr>fragmentShader := fragmentShaderTemp w\<rparr>)"
    by (rule ready_frame) simp_all
  then have r: "ready var w0" unfolding w0_def by (rule cleanup_ready)
  then obtain t where t: "threeRenderer (renderer w0) = Some t" by (rule readyE)
  have f: "fragmentShader w0 = fragmentShaderTemp w"
    by (simp add: w0_def cleanup_def update_scene_def)
  have cc: "compile_click var drv now w = effect var drv now w0"
    using False by (simp add: compile_click_def w0_def)
  show ?thesis unfolding cc using effect_page_inv [OF t, of var drv now] r f by simp
qed

lemma renderLoop_ready: "ready var w \<Longrightarrow> ready var (renderLoop now w)"
  by (auto simp: ready_def renderLoop_def onResize_def recreateCamera_def onDraw_call_def
      getElapsedTime_unfold Let_def split: option.splits)

lemma renderLoop_frame:
  "fragmentShader (renderLoop now w) = fragmentShader w"
  "errors (renderLoop now w) = errors w"
  "drawables (renderLoop now w) = drawables w"
  by (auto simp: drawables_def renderLoop_def onResize_def recreateCamera_def onDraw_call_def
      getElapsedTime_unfold Let_def split: option.splits)

lemma page_inv_frame:
  assumes "page_inv var drv w"
    and "(threeRenderer (renderer w') = None) = (threeRenderer (renderer w) = None)"
    and "scene (renderer w') = scene (renderer w)"
    and "length (listeners w') = length (listeners w)"
    and "length (materials w') = length (materials w)"
    and "fragmentShader w' = fragmentShader w" and "errors w' = errors w"
  shows "page_inv var drv w'"
proof -
  have "ready var w" using assms(1) by (simp add: page_inv_def)
  then have "ready var w'" by (rule ready_frame) (use assms in simp_all)
  moreover have "drawables w' = drawables w" using assms(3) by (simp add: drawables_def)
  ultimately show ?thesis using assms(1,6,7) by (simp add: page_inv_def)
qed

lemma step_page_inv:
  assumes "page_inv var drv w"
  shows "page_inv var drv (step var drv now ev w)"
proof (cases ev)
  case Compile
  then show ?thesis using assms compile_click_page_inv [OF assms, of now] by (simp add: step_def)
next
  case Frame
  define w0 where "w0 = w\<lparr>pendingFrames := pendingFrames w - 1\<rparr>"
  have "ready var w" using assms by (simp add: page_inv_def)
  then have "ready var w0" unfolding w0_def by (rule ready_frame) simp_all
  then have "ready var (renderLoop now w0)" by (rule renderLoop_ready)
  moreover have "fragmentShader w0 = fragmentShader w" "errors w0 = errors w" "drawables w0 = drawables w"
    by (simp_all add: w0_def drawables_def)
  ultimately have "page_inv var drv (renderLoop now w0)"
    using assms by (simp add: page_inv_def renderLoop_frame)
  then show ?thesis using assms Frame by (simp add: step_def w0_def)
next
  case (Edit v)
  have "page_inv var drv (w\<lparr>fragmentShaderTemp := v\<rparr>)" by (rule page_inv_frame [OF assms]) simp_all
  then show ?thesis using assms Edit by (simp add: step_def)
next
  case SaveAs
  then show ?thesis using assms by (simp add: step_def)
next
  case ToggleEditors
  have "page_inv var drv (w\<lparr>showEditors := \<not> showEditors w\<rparr>)" by (rule page_inv_frame [OF assms]) simp_all
  then show ?thesis using ToggleEditors by (simp add: step_def)
next
  case (Wheel d)
  have "page_inv var drv (w\<lparr>listeners := map (wheel_listener d) (listeners w)\<rparr>)"
    by (rule page_inv_frame [OF assms]) simp_all
  then show ?thesis using Wheel by (simp add: step_def)
next
  case (MouseMove x y b)
  have "page_inv var drv (w\<lparr>listeners := map (mousemove_listener x y b) (listeners w)\<rparr>)"
    by (rule page_inv_frame [OF assms]) simp_all
  then show ?thesis using MouseMove by (simp add: step_def)
next
  case (Resize iw ih)
  have "page_inv var drv (w\<lparr>innerWidth := iw, innerHeight := ih\<rparr>)"
    by (rule page_inv_frame [OF assms]) simp_all
  then show ?thesis using Resize by (simp add: step_def)
qed

lemma main_page_inv: "page_inv var drv (main var drv iw ih now)"
proof -
  let ?w = "first_render var (enable (Renderer_new (page iw ih)))"
  have 1: "threeRenderer (renderer ?w) \<noteq> None" 
    by (cases var) (simp_all add: first_render_def enable_def Renderer_new_def page_def switchScene_def recreateCamera_def Let_def)
  have 2: "\<forall>s. scene (renderer ?w) = Some s \<longrightarrow> scene_name s \<noteq> ''quad''"
    by (cases var) (simp_all add: first_render_def enable_def Renderer_new_def page_def switchScene_def recreateCamera_def Let_def SceneWithCallback_new_def)
  from 1 obtain t where "threeRenderer (renderer ?w) = Some t" by auto
  from effect_page_inv [OF this, of var drv now] 2 show ?thesis by (simp add: main_def)
qed

lemma reachable_page_inv: "reachable var drv w \<Longrightarrow> page_inv var drv w"
  by (induction rule: reachable.induct) (auto intro: main_page_inv step_page_inv)



section \<open>The page on the sample driver\<close>

lemma initFragmentShader_last: "initFragmentShader var \<noteq> [] \<and> last (initFragmentShader var) = CHR '' ''"
  by (cases var) (simp_all add: initFragmentShader_def)

lemma sample_driver_accepts_init [simp]:
  "COMPILE_STATUS sample_driver ty (p @ initFragmentShader var)"
  using initFragmentShader_last [of var] by (simp add: sample_driver_def)

lemmas eval_defs =
  effect_def try_block_def 
  switchScene_def recreateCamera_def SceneWithCallback_new_def Let_def getResolution_def
  renderer_verifyShaderProgram_def verifyShaderProgram_def createShader_def gl_createShader_def gl_createProgram_def
  gl_attachShader_def gl_deleteShader_def gl_deleteProgram_def nullish_def 
  getElapsedTime_def Clock_getElapsedTime_def Clock_getDelta_def Clock_start_def 
  remove_old_quad_def getObjectByName_def scene_remove_def scene_add_def update_scene_def new_quad_def
  precompile_def renderer_compile_def 

lemma main_sample: "main var sample_driver iw ih now = sample_page var iw ih now"
  by (cases var) (simp_all add: sample_page_def main_def first_render_def enable_def Renderer_new_def page_def eval_defs fresh_context_def Clock_new_def,
      simp_all add: sample_driver_def)

section \<open>The compile action\<close>

lemma effect_fail_frame:
  assumes "ready var w" and "validation drv (fragmentShader w) = Inl e"
  shows "drawables (effect var drv now w) = drawables w"
    "draw_hook_of (effect var drv now w) = draw_hook_of w"
    "materials (effect var drv now w) = materials w"
    "gpu_log (effect var drv now w) = gpu_log w"
    "geometries (effect var drv now w) = geometries w"
    "listeners (effect var drv now w) = listeners w"
    "pendingFrames (effect var drv now w) = pendingFrames w"
    "enabled (renderer (effect var drv now w)) = enabled (renderer w)"
    "camera (renderer (effect var drv now w)) = camera (renderer w)"
    "clock (renderer (effect var drv now w)) = clock (renderer w)"
    "errors (effect var drv now w) = e"
proof -
  from assms(1) obtain t s where ts: "threeRenderer (renderer w) = Some t"
    "scene (renderer w) = Some s" "scene_name s = ''quad''" by (rule readyE)
  have sw: "switchScene ''quad'' w = w" using ts(2,3) by (rule switchScene_same)
  have eff: "effect var drv now w =
      w\<lparr>renderer := (renderer w)\<lparr>threeRenderer :=
          Some (t\<lparr>glContext := snd (verifyShaderProgram drv vertexShader (fragmentShader w) (glContext t))\<rparr>)\<rparr>,
        errors := e\<rparr>"
    by (simp add: effect_def sw try_block_fail [OF ts(1) assms(2)])
  show "drawables (effect var drv now w) = drawables w"
    "draw_hook_of (effect var drv now w) = draw_hook_of w"
    "materials (effect var drv now w) = materials w"
    "gpu_log (effect var drv now w) = gpu_log w"
    "geometries (effect var drv now w) = geometries w"
    "listeners (effect var drv now w) = listeners w"
    "pendingFrames (effect var drv now w) = pendingFrames w"
    "enabled (renderer (effect var drv now w)) = enabled (renderer w)"
    "camera (renderer (effect var drv now w)) = camera (renderer w)"
    "clock (renderer (effect var drv now w)) = clock (renderer w)"
    "errors (effect var drv now w) = e"
    unfolding eff by (simp_all add: drawables_def draw_hook_of_def)
qed

text \<open>
  C4. On every compile action, at any state the page can reach, the committed source
  becomes the draft, whether or not the draft validates; the displayed error state is
  then the thrown message when validation of the draft fails, and empty when it
  succeeds. (A click with an unchanged draft re-runs nothing; the state already
  shows the verdict on that text.)
\<close>

theorem compile_commits_draft_and_records_verdict:
  assumes "reachable var drv w"
  shows "fragmentShader (compile_click var drv now w) = fragmentShaderTemp w
    \<and> errors (compile_click var drv now w) =
        (case validation drv (fragmentShaderTemp w) of Inl e \<Rightarrow> e | Inr u \<Rightarrow> [])"
proof -
  have "page_inv var drv w" using assms by (rule reachable_page_inv)
  then have "page_inv var drv (compile_click var drv now w)
    \<and> fragmentShader (compile_click var drv now w) = fragmentShaderTemp w"
    by (rule compile_click_page_inv)
  then show ?thesis by (simp add: page_inv_def diagnostic_def)
qed

theorem compile_commits_draft_and_records_verdict_witness:
  "fragmentShader (compile_click App_tsx sample_driver 9
      (step App_tsx sample_driver 5 (Edit ''void main() { gl_FragColor = ?'') (main App_tsx sample_driver 640 480 0))) =
     ''void main() { gl_FragColor = ?''
   \<and> errors (compile_click App_tsx sample_driver 9
      (step App_tsx sample_driver 5 (Edit ''void main() { gl_FragColor = ?'') (main App_tsx sample_driver 640 480 0))) =
     ''ERROR: 0:1: syntax error''
   \<and> errors (compile_click App_tsx sample_driver 9
      (step App_tsx sample_driver 5 (Edit ''void main() {}'') (main App_tsx sample_driver 640 480 0))) = []"
proof -
  define w where "w = step App_tsx sample_driver 5 (Edit ''void main() { gl_FragColor = ?'') (main App_tsx sample_driver 640 480 0)"
  define w' where "w' = step App_tsx sample_driver 5 (Edit ''void main() {}'') (main App_tsx sample_driver 640 480 0)"
  have r: "reachable App_tsx sample_driver w" "reachable App_tsx sample_driver w'"
    unfolding w_def w'_def by (intro reachable.intros)+
  have t: "fragmentShaderTemp w = ''void main() { gl_FragColor = ?''" "fragmentShaderTemp w' = ''void main() {}''"
    unfolding w_def w'_def main_sample by (simp_all add: step_def sample_page_def)
  have v: "validation sample_driver ''void main() { gl_FragColor = ?'' = Inl ''ERROR: 0:1: syntax error''"
     "validation sample_driver ''void main() {}'' = Inr ()"
    by (simp_all add: validation_def verifyShaderProgram_fst sample_driver_def nullish_def)
  show ?thesis
    using compile_commits_draft_and_records_verdict [OF r(1), of 9]
      compile_commits_draft_and_records_verdict [OF r(2), of 9] t v unfolding w_def w'_def by simp
qed

text \<open>
  C2 as stated fails. After a successful first run the draw hook is installed; a compile
  of a source that fails validation leaves no hook installed, because the cleanup of
  the previous effect cleared it and the failed run does not install one. The
  committed source has changed as well, so the diagnostic is not the only state that
  changed.
\<close>

theorem failed_compile_clears_draw_hook:
  "draw_hook_of (main App_tsx sample_driver 800 600 0) =
     Some \<lparr>hook_mat = 0, hook_resolution = (800, 600), hook_env = 0\<rparr>
   \<and> draw_hook_of (run App_tsx sample_driver [(10, Edit ''void main() { ?''), (20, Compile)]
        (main App_tsx sample_driver 800 600 0)) = None
   \<and> fragmentShader (main App_tsx sample_driver 800 600 0) = initFragmentShader App_tsx
   \<and> fragmentShader (run App_tsx sample_driver [(10, Edit ''void main() { ?''), (20, Compile)]
        (main App_tsx sample_driver 800 600 0)) = ''void main() { ?''"
  unfolding main_sample
  by (simp add: sample_page_def draw_hook_of_def step_def compile_click_def cleanup_def eval_defs
      sample_driver_def initFragmentShader_def nl_def)

text \<open>
  C2, amended: for every fragment source whose validation fails, the compile action
  constructs no material and no drawable, the drawables that were in the scene are
  still there with their materials (none disposed, no uniform changed), the listeners,
  the camera and the clock are as before, and the render loop is not aborted (it stays
  enabled, with the same frames pending); the committed source becomes the draft and
  the diagnostic is recorded.
\<close>

theorem failed_compile_keeps_drawables_and_materials:
  assumes "reachable var drv w" and "validation drv (fragmentShaderTemp w) = Inl e"
  shows "drawables (compile_click var drv now w) = drawables w
    \<and> materials (compile_click var drv now w) = materials w
    \<and> gpu_log (compile_click var drv now w) = gpu_log w
    \<and> geometries (compile_click var drv now w) = geometries w
    \<and> listeners (compile_click var drv now w) = listeners w
    \<and> enabled (renderer (compile_click var drv now w)) = enabled (renderer w)
    \<and> pendingFrames (compile_click var drv now w) = pendingFrames w
    \<and> camera (renderer (compile_click var drv now w)) = camera (renderer w)
    \<and> clock (renderer (compile_click var drv now w)) = clock (renderer w)
    \<and> fragmentShader (compile_click var drv now w) = fragmentShaderTemp w
    \<and> errors (compile_click var drv now w) = e"
proof (cases "fragmentShaderTemp w = fragmentShader w")
  case True
  have "page_inv var drv w" using assms(1) by (rule reachable_page_inv)
  then have "errors w = e" using True assms(2) by (simp add: page_inv_def diagnostic_def)
  then show ?thesis using True by (simp add: compile_click_def)
next
  case False
  define w0 where "w0 = cleanup (w\<lparr>fragmentShader := fragmentShaderTemp w\<rparr>)"
  have "page_inv var drv w" using assms(1) by (rule reachable_page_inv)
  then have "ready var w" by (simp add: page_inv_def)
  then have "ready var (w\<lparr>fragmentShader := fragmentShaderTemp w\<rparr>)"
    by (rule ready_frame) simp_all
  then have r: "ready var w0" unfolding w0_def by (rule cleanup_ready)
  have f: "validation drv (fragmentShader w0) = Inl e"
    using assms(2) by (simp add: w0_def cleanup_def update_scene_def)
  have cc: "compile_click var drv now w = effect var drv now w0"
    using False by (simp add: compile_click_def w0_def)
  have w0: "drawables w0 = drawables w" "materials w0 = materials w" "gpu_log w0 = gpu_log w"
    "geometries w0 = geometries w" "listeners w0 = listeners w" "pendingFrames w0 = pendingFrames w"
    "enabled (renderer w0) = enabled (renderer w)" "camera (renderer w0) = camera (renderer w)"
    "clock (renderer w0) = clock (renderer w)" "fragmentShader w0 = fragmentShaderTemp w"
    by (simp_all add: w0_def cleanup_def update_scene_def drawables_def split: option.splits)
  have "fragmentShader (effect var drv now w0) = fragmentShader w0"
    using compile_click_page_inv [OF \<open>page_inv var drv w\<close>, of now] cc w0(10) by simp
  then show ?thesis unfolding cc using effect_fail_frame [OF r f, of now] w0 by simp
qed

theorem failed_compile_keeps_drawables_and_materials_witness:
  "drawables (compile_click App_tsx sample_driver 20
      (step App_tsx sample_driver 10 (Edit ''void main() { ?'') (main App_tsx sample_driver 800 600 0))) =
     [Mesh ''quadX'' 0 (Single 0) (Some 0)]
   \<and> errors (compile_click App_tsx sample_driver 20
      (step App_tsx sample_driver 10 (Edit ''void main() { ?'') (main App_tsx sample_driver 800 600 0))) =
     ''ERROR: 0:1: syntax error''"
proof -
  define w where "w = step App_tsx sample_driver 10 (Edit ''void main() { ?'') (main App_tsx sample_driver 800 600 0)"
  have r: "reachable App_tsx sample_driver w"
    unfolding w_def by (intro reachable.intros)
  have t: "fragmentShaderTemp w = ''void main() { ?''" "drawables w = [Mesh ''quadX'' 0 (Single 0) (Some 0)]"
    unfolding w_def main_sample by (simp_all add: step_def sample_page_def drawables_def)
  have v: "validation sample_driver (fragmentShaderTemp w) = Inl ''ERROR: 0:1: syntax error''"
    unfolding t by (simp add: validation_def verifyShaderProgram_fst sample_driver_def nullish_def)
  show ?thesis
    using failed_compile_keeps_drawables_and_materials [OF r v, of 20] t unfolding w_def by simp
qed

section \<open>Switching scenes\<close>

lemma dispose_child_mem:
  "Mesh n g m u \<in> set cs \<Longrightarrow>
     GeometryDispose g \<in> set (concat (map dispose_child cs))
     \<and> (\<forall>i \<in> set (materials_of m). MaterialDispose i \<in> set (concat (map dispose_child cs)))"
proof (induction cs)
  case Nil
  then show ?case by simp
next
  case (Cons c cs)
  show ?case
  proof (cases "c = Mesh n g m u")
    case True
    then show ?thesis by (cases m) auto
  next
    case False
    then have "Mesh n g m u \<in> set cs" using Cons.prems by simp
    then show ?thesis using Cons.IH by auto
  qed
qed

text \<open>
  C5. On a constructed renderer, \<^verbatim>\<open>switchScene(name)\<close> changes nothing when the active
  scene already has that name. Otherwise it disposes the geometry and every material of
  each mesh among the children of the active scene, then releases the render lists, and
  installs a new scene of that name with no children and no hook, and a new camera. The
  function has no throw statement: it is total and returns the new state.
\<close>

theorem switchScene_disposes_and_installs_fresh_scene:
  assumes "scene (renderer w) = Some s" and "threeRenderer (renderer w) = Some t"
  shows "if scene_name s = name then switchScene name w = w
         else gpu_log (switchScene name w) =
                gpu_log w @ concat (map dispose_child (children s)) @ [RenderListsDispose]
           \<and> (\<forall>c \<in> set (children s). \<forall>n g m u. c = Mesh n g m u \<longrightarrow>
                 GeometryDispose g \<in> set (gpu_log (switchScene name w))
                 \<and> (\<forall>i \<in> set (materials_of m). MaterialDispose i \<in> set (gpu_log (switchScene name w))))
           \<and> scene (renderer (switchScene name w)) = Some \<lparr>scene_name = name, children = [], onDraw = None\<rparr>
           \<and> drawables (switchScene name w) = []
           \<and> camera (renderer (switchScene name w)) = Some (OrthographicCamera (- 1) 1 1 (- 1) 0.1 10.0)"
proof (cases "scene_name s = name")
  case True
  then show ?thesis using assms(1) by (simp add: switchScene_same)
next
  case False
  have log: "gpu_log (switchScene name w) =
      gpu_log w @ concat (map dispose_child (children s)) @ [RenderListsDispose]"
    using assms False by (simp add: switchScene_def recreateCamera_def Let_def)
  have rest: "scene (renderer (switchScene name w)) = Some \<lparr>scene_name = name, children = [], onDraw = None\<rparr>"
    "camera (renderer (switchScene name w)) = Some (OrthographicCamera (- 1) 1 1 (- 1) 0.1 10.0)"
    using assms False by (simp_all add: switchScene_def recreateCamera_def Let_def SceneWithCallback_new_def)
  have "\<forall>c \<in> set (children s). \<forall>n g m u. c = Mesh n g m u \<longrightarrow>
                 GeometryDispose g \<in> set (gpu_log (switchScene name w))
                 \<and> (\<forall>i \<in> set (materials_of m). MaterialDispose i \<in> set (gpu_log (switchScene name w)))"
    unfolding log using dispose_child_mem [of _ _ _ _ "children s"] by auto
  then show ?thesis using False log rest by (simp add: drawables_def)
qed

theorem switchScene_disposes_and_installs_fresh_scene_witness:
  "switchScene ''quad'' (sample_page App_tsx 800 600 0) = sample_page App_tsx 800 600 0
   \<and> gpu_log (switchScene ''empty'' (sample_page App_tsx 800 600 0)) =
       [RenderListsDispose, SceneAdd (Mesh ''quadX'' 0 (Single 0) (Some 0)),
        GeometryDispose 0, MaterialDispose 0, RenderListsDispose]
   \<and> drawables (switchScene ''empty'' (sample_page App_tsx 800 600 0)) = []"
proof -
  have s: "scene (renderer (sample_page App_tsx 800 600 0)) =
      Some \<lparr>scene_name = ''quad'', children = [Mesh ''quadX'' 0 (Single 0) (Some 0)],
             onDraw = Some \<lparr>hook_mat = 0, hook_resolution = (800, 600), hook_env = 0\<rparr>\<rparr>"
    by (simp add: sample_page_def)
  obtain t where t: "threeRenderer (renderer (sample_page App_tsx 800 600 0)) = Some t"
    by (simp add: sample_page_def)
  have l: "gpu_log (sample_page App_tsx 800 600 0) =
      [RenderListsDispose, SceneAdd (Mesh ''quadX'' 0 (Single 0) (Some 0))]"
    by (simp add: sample_page_def)
  show ?thesis
    using switchScene_disposes_and_installs_fresh_scene [OF s t, of "''quad''"]
      switchScene_disposes_and_installs_fresh_scene [OF s t, of "''empty''"] l
    by simp
qed

section \<open>Replacing the quad\<close>

text \<open>
  C1, at a failing input. In the \<^verbatim>\<open>part_000\<close> edition the quad gets no name, so the
  lookup of \<^verbatim>\<open>"quad"\<close> answers the scene itself (whose name that is), the removal
  changes nothing, and no material is ever disposed: after the first run and one more
  successful compile the scene holds two quads and the log has no dispose call.
\<close>

theorem part_000_compile_leaves_old_quad_undisposed:
  "drawables (run Part_000 sample_driver [(10, Edit ''void main() {}''), (20, Compile)]
      (main Part_000 sample_driver 800 600 0)) =
     [Mesh [] 0 (Single 0) None, Mesh [] 1 (Single 1) None]
   \<and> gpu_log (run Part_000 sample_driver [(10, Edit ''void main() {}''), (20, Compile)]
      (main Part_000 sample_driver 800 600 0)) =
     [RenderListsDispose, SceneAdd (Mesh [] 0 (Single 0) None), SceneAdd (Mesh [] 1 (Single 1) None)]
   \<and> errors (run Part_000 sample_driver [(10, Edit ''void main() {}''), (20, Compile)]
      (main Part_000 sample_driver 800 600 0)) = []"
  unfolding main_sample
  by (simp add: sample_page_def drawables_def step_def compile_click_def cleanup_def eval_defs
      sample_driver_def initFragmentShader_def nl_def)

section \<open>The per-frame uniforms\<close>

text \<open>
  C6, at a failing input. The hook writes the resolution that was read when the effect
  ran, not the resolution of the frame: after the window is resized from 800 by 600 to
  1000 by 500, the next frame updates the time uniform and leaves the resolution
  uniform at 800 by 600.
\<close>

theorem stale_resolution_after_resize:
  "getResolution (run App_tsx sample_driver [(10, Resize 1000 500), (16, Frame)]
      (main App_tsx sample_driver 800 600 0)) = (1000, 500)
   \<and> map uniforms (materials (run App_tsx sample_driver [(10, Resize 1000 500), (16, Frame)]
      (main App_tsx sample_driver 800 600 0))) =
     [\<lparr>time = 0.016, resolution = (800, 600), mouse = (0, 0), drag = (0, 0), zoom = 1\<rparr>]"
  unfolding main_sample
  by (simp add: sample_page_def step_def renderLoop_def onResize_def onDraw_call_def eval_defs
      new_listener_env_def)

section \<open>Pointer drag\<close>







section \<open>The frame clock\<close>

lemma Clock_getElapsedTime_started:
  assumes "clock_started c"
  shows "fst (Clock_getElapsedTime now c) = (now - startTime c) / 1000"
    and "startTime (snd (Clock_getElapsedTime now c)) = startTime c"
    and "clock_started (snd (Clock_getElapsedTime now c))"
  using assms
  by (simp_all add: clock_started_def Clock_getElapsedTime_def Clock_getDelta_def Let_def field_simps)

lemma Clock_getElapsedTime_first:
  "fst (Clock_getElapsedTime now Clock_new) = 0"
  "startTime (snd (Clock_getElapsedTime now Clock_new)) = now"
  "clock_started (snd (Clock_getElapsedTime now Clock_new))"
  by (simp_all add: clock_started_def Clock_getElapsedTime_def Clock_getDelta_def Clock_start_def Clock_new_def)

lemma try_block_ok_clock:
  assumes "ready var w" and "validation drv (fragmentShader w) = Inr u"
  shows "clock (renderer (snd (try_block var drv now res w))) = snd (Clock_getElapsedTime now (clock (renderer w)))
    \<and> materials (snd (try_block var drv now res w)) = materials w @
         [\<lparr>uniforms = \<lparr>time = fst (Clock_getElapsedTime now (clock (renderer w))), resolution = res,
                        mouse = (0, 0), drag = (0, 0), zoom = 1\<rparr>,
           mat_vertexShader = vertexShader, mat_fragmentShader = fragmentShader w,
           depthWrite = False, depthTest = False\<rparr>]"
proof -
  from assms(1) obtain t s where ts: "threeRenderer (renderer w) = Some t"
    "scene (renderer w) = Some s" "scene_name s = ''quad''"
    "list_all (is_quad var) (children s)" "var = App_tsx \<Longrightarrow> length (children s) \<le> 1"
    by (rule readyE) blast
  show ?thesis
  proof (cases var)
    case Part_000
    then show ?thesis using ts assms(2) by (simp add: try_block_defs)
  next
    case App_tsx
    then consider "children s = []" | g m where "children s = [Mesh ''quadX'' g (Single m) (Some m)]"
      using ts(4,5) by (cases "children s") (auto dest: is_quad_App_tsx)
    then show ?thesis
    proof cases
      case 1
      then show ?thesis using ts assms(2) App_tsx by (simp add: try_block_defs)
    next
      case 2
      then show ?thesis using ts assms(2) App_tsx by (simp add: try_block_defs)
    qed
  qed
qed

lemma effect_ok_clock:
  assumes "ready var w" and "validation drv (fragmentShader w) = Inr u"
  shows "clock (renderer (effect var drv now w)) = snd (Clock_getElapsedTime now (clock (renderer w)))"
    and "time (uniforms (last (materials (effect var drv now w)))) = fst (Clock_getElapsedTime now (clock (renderer w)))"
proof -
  from assms(1) obtain s where s: "scene (renderer w) = Some s" "scene_name s = ''quad''" by (rule readyE)
  have sw: "switchScene ''quad'' w = w" using s by (rule switchScene_same)
  obtain r' w' where tb: "try_block var drv now (getResolution w) w = (r', w')"
    by (cases "try_block var drv now (getResolution w) w")
  have w': "clock (renderer w') = snd (Clock_getElapsedTime now (clock (renderer w)))"
    "time (uniforms (last (materials w'))) = fst (Clock_getElapsedTime now (clock (renderer w)))"
    using try_block_ok_clock [OF assms, of now "getResolution w"] unfolding tb by simp_all
  have "effect var drv now w = (case r' of Inl e \<Rightarrow> w'\<lparr>errors := e\<rparr> | Inr _ \<Rightarrow> w'\<lparr>errors := []\<rparr>)"
    by (simp add: effect_def sw tb)
  then show "clock (renderer (effect var drv now w)) = snd (Clock_getElapsedTime now (clock (renderer w)))"
    and "time (uniforms (last (materials (effect var drv now w)))) = fst (Clock_getElapsedTime now (clock (renderer w)))"
    using w' by (cases r'; simp)+
qed

text \<open>
  C10 as stated fails in one point: elapsed time is not measured from the construction
  of the renderer. The clock starts at its first reading, which returns zero whenever
  it is taken, and so the time uniform of the first material is zero however long
  after construction the effect first runs.
\<close>

theorem first_clock_reading_is_zero_whenever_taken:
  "fst (getElapsedTime 5000 (Renderer_new (page 800 600))) = 0
   \<and> fst (getElapsedTime 9000 (Renderer_new (page 800 600))) = 0
   \<and> map (\<lambda>m. time (uniforms m)) (materials (main App_tsx sample_driver 800 600 9000)) = [0]"
  unfolding main_sample
  by (simp add: sample_page_def getElapsedTime_unfold Renderer_new_def page_def switchScene_def
      recreateCamera_def Let_def Clock_getElapsedTime_def Clock_getDelta_def Clock_start_def Clock_new_def)

text \<open>
  C10, amended. The first \<^verbatim>\<open>getElapsedTime\<close> after construction starts the clock and
  returns zero. Once the clock has started, \<^verbatim>\<open>switchScene\<close> and
  \<^verbatim>\<open>verifyShaderProgram\<close> leave the clock as it is, a compile action keeps its start
  time, \<^verbatim>\<open>getElapsedTime\<close> returns the time since that start, and the time uniform
  seeded into the material of a successful recompile is that running value, not zero.
\<close>

theorem frame_clock_survives_scene_switch_and_recompile:
  assumes "reachable var drv w" and "clock_started (clock (renderer w))"
  shows "clock (renderer (switchScene name w)) = clock (renderer w)
    \<and> clock (renderer (snd (renderer_verifyShaderProgram drv v f w))) = clock (renderer w)
    \<and> fst (getElapsedTime now w) = (now - startTime (clock (renderer w))) / 1000
    \<and> clock_started (clock (renderer (compile_click var drv now w)))
    \<and> startTime (clock (renderer (compile_click var drv now w))) = startTime (clock (renderer w))
    \<and> (if fragmentShaderTemp w \<noteq> fragmentShader w \<and> validation drv (fragmentShaderTemp w) = Inr ()
        then time (uniforms (last (materials (compile_click var drv now w)))) =
               (now - startTime (clock (renderer w))) / 1000
        else materials (compile_click var drv now w) = materials w)
    \<and> fst (getElapsedTime t0 (Renderer_new p)) = 0
    \<and> startTime (clock (renderer (snd (getElapsedTime t0 (Renderer_new p))))) = t0
    \<and> clock_started (clock (renderer (snd (getElapsedTime t0 (Renderer_new p)))))"
proof -
  have 1: "clock (renderer (switchScene name w)) = clock (renderer w)"
    by (simp add: switchScene_def recreateCamera_def Let_def split: option.splits)
  have 2: "clock (renderer (snd (renderer_verifyShaderProgram drv v f w))) = clock (renderer w)"
    by (simp add: renderer_verifyShaderProgram_def case_prod_beta split: option.splits)
  have 3: "fst (getElapsedTime now w) = (now - startTime (clock (renderer w))) / 1000"
    using assms(2) by (simp add: getElapsedTime_unfold Clock_getElapsedTime_started)
  have n: "clock (renderer (Renderer_new p)) = Clock_new"
    by (simp add: Renderer_new_def switchScene_def recreateCamera_def Let_def)
  have 7: "fst (getElapsedTime t0 (Renderer_new p)) = 0"
    "startTime (clock (renderer (snd (getElapsedTime t0 (Renderer_new p))))) = t0"
    "clock_started (clock (renderer (snd (getElapsedTime t0 (Renderer_new p)))))"
    by (simp_all add: getElapsedTime_unfold n Clock_getElapsedTime_first)
  have inv: "page_inv var drv w" using assms(1) by (rule reachable_page_inv)
  have 456: "clock_started (clock (renderer (compile_click var drv now w)))
    \<and> startTime (clock (renderer (compile_click var drv now w))) = startTime (clock (renderer w))
    \<and> (if fragmentShaderTemp w \<noteq> fragmentShader w \<and> validation drv (fragmentShaderTemp w) = Inr ()
        then time (uniforms (last (materials (compile_click var drv now w)))) =
               (now - startTime (clock (renderer w))) / 1000
        else materials (compile_click var drv now w) = materials w)"
  proof (cases "fragmentShaderTemp w = fragmentShader w")
    case True
    then show ?thesis using assms(2) by (simp add: compile_click_def)
  next
    case False
    define w0 where "w0 = cleanup (w\<lparr>fragmentShader := fragmentShaderTemp w\<rparr>)"
    have "ready var w" using inv by (simp add: page_inv_def)
    then have "ready var (w\<lparr>fragmentShader := fragmentShaderTemp w\<rparr>)"
      by (rule ready_frame) simp_all
    then have r: "ready var w0" unfolding w0_def by (rule cleanup_ready)
    have w0: "fragmentShader w0 = fragmentShaderTemp w" "clock (renderer w0) = clock (renderer w)"
      "materials w0 = materials w"
      by (simp_all add: w0_def cleanup_def update_scene_def)
    have cc: "compile_click var drv now w = effect var drv now w0"
      using False by (simp add: compile_click_def w0_def)
    show ?thesis
    proof (cases "validation drv (fragmentShaderTemp w)")
      case (Inl e)
      then have "validation drv (fragmentShader w0) = Inl e" using w0 by simp
      from effect_fail_frame(3,10) [OF r this, of now] show ?thesis
        unfolding cc using assms(2) w0 Inl by simp
    next
      case (Inr u)
      then have "validation drv (fragmentShader w0) = Inr u" using w0 by simp
      from effect_ok_clock [OF r this, of now] show ?thesis
        unfolding cc using assms(2) w0 Inr False by (simp add: Clock_getElapsedTime_started)
    qed
  qed
  show ?thesis using 1 2 3 456 7 by simp
qed

theorem frame_clock_survives_scene_switch_and_recompile_witness:
  "fst (getElapsedTime 2500
      (step App_tsx sample_driver 1000 (Edit ''void main() {}'') (main App_tsx sample_driver 800 600 500))) = 2
   \<and> startTime (clock (renderer (compile_click App_tsx sample_driver 2500
        (step App_tsx sample_driver 1000 (Edit ''void main() {}'') (main App_tsx sample_driver 800 600 500))))) = 500
   \<and> time (uniforms (last (materials (compile_click App_tsx sample_driver 2500
        (step App_tsx sample_driver 1000 (Edit ''void main() {}'') (main App_tsx sample_driver 800 600 500)))))) = 2"
proof -
  define w where "w = step App_tsx sample_driver 1000 (Edit ''void main() {}'') (main App_tsx sample_driver 800 600 500)"
  have r: "reachable App_tsx sample_driver w"
    unfolding w_def by (intro reachable.intros)
  have w: "fragmentShaderTemp w = ''void main() {}''" "fragmentShader w = initFragmentShader App_tsx"
    "clock (renderer w) = \<lparr>autoStart = True, startTime = 500, oldTime = 500, elapsedTime = 0, running = True\<rparr>"
    unfolding w_def main_sample by (simp_all add: step_def sample_page_def)
  have c: "clock_started (clock (renderer w))" unfolding w by (simp add: clock_started_def)
  have v: "validation sample_driver ''void main() {}'' = Inr ()"
    by (simp add: validation_def verifyShaderProgram_fst sample_driver_def)
  have d: "''void main() {}'' \<noteq> initFragmentShader App_tsx"
    by (simp add: initFragmentShader_def nl_def)
  show ?thesis
    using frame_clock_survives_scene_switch_and_recompile [OF r c, where now = 2500 and name = "[]"
        and v = "[]" and f = "[]" and ?t0.0 = 0 and p = "page 800 600"] w v d
    unfolding w_def [symmetric] by simp
qed

section \<open>The quad of the App.tsx edition\<close>

text \<open>
  The \<^verbatim>\<open>App.tsx\<close> edition names its quad and keeps the material in \<^verbatim>\<open>userData\<close>:
  after every compile of a valid source the scene holds exactly one quad, and the
  previous quad's material is disposed before the new quad is added.
\<close>

lemma effect_ok_App_tsx:
  assumes "ready App_tsx w" and "validation drv (fragmentShader w) = Inr u"
  shows "length (drawables (effect App_tsx drv now w)) = 1"
    and "gpu_log (effect App_tsx drv now w) = gpu_log w @
          (case drawables w of
             [] \<Rightarrow> []
           | c # cs \<Rightarrow> [SceneRemove c, MaterialDispose (case material c of Single m \<Rightarrow> m | Array tm \<Rightarrow> hd tm)]) @
          [SceneAdd (Mesh ''quadX'' (geom w) (Single (length (materials w))) (Some (length (materials w))))]"
proof -
  from assms(1) obtain t s where ts: "threeRenderer (renderer w) = Some t"
    "scene (renderer w) = Some s" "scene_name s = ''quad''"
    "list_all (is_quad App_tsx) (children s)" "length (children s) \<le> 1"
    by (rule readyE) blast
  have sw: "switchScene ''quad'' w = w" using ts(2,3) by (rule switchScene_same)
  consider "children s = []" | g m where "children s = [Mesh ''quadX'' g (Single m) (Some m)]"
    using ts(4,5) by (cases "children s") (auto dest: is_quad_App_tsx)
  then have "length (drawables (effect App_tsx drv now w)) = 1
    \<and> gpu_log (effect App_tsx drv now w) = gpu_log w @
          (case drawables w of
             [] \<Rightarrow> []
           | c # cs \<Rightarrow> [SceneRemove c, MaterialDispose (case material c of Single m \<Rightarrow> m | Array tm \<Rightarrow> hd tm)]) @
          [SceneAdd (Mesh ''quadX'' (geom w) (Single (length (materials w))) (Some (length (materials w))))]"
  proof cases
    case 1
    then show ?thesis using ts assms(2)
      by (simp add: effect_def sw try_block_defs drawables_def)
  next
    case 2
    then show ?thesis using ts assms(2)
      by (simp add: effect_def sw try_block_defs drawables_def)
  qed
  then show "length (drawables (effect App_tsx drv now w)) = 1"
    and "gpu_log (effect App_tsx drv now w) = gpu_log w @
          (case drawables w of
             [] \<Rightarrow> []
           | c # cs \<Rightarrow> [SceneRemove c, MaterialDispose (case material c of Single m \<Rightarrow> m | Array tm \<Rightarrow> hd tm)]) @
          [SceneAdd (Mesh ''quadX'' (geom w) (Single (length (materials w))) (Some (length (materials w))))]"
    by simp_all
qed

lemma App_tsx_compile_keeps_exactly_one_quad:
  assumes "reachable App_tsx drv w" and "validation drv (fragmentShaderTemp w) = Inr ()"
  shows "length (drawables (compile_click App_tsx drv now w)) = 1"
proof -
  have inv: "page_inv App_tsx drv w" using assms(1) by (rule reachable_page_inv)
  then have rw: "ready App_tsx w" by (simp add: page_inv_def)
  show ?thesis
  proof (cases "fragmentShaderTemp w = fragmentShader w")
    case True
    then have "drawables w \<noteq> []" using inv assms(2) by (simp add: page_inv_def)
    moreover have "length (drawables w) \<le> 1" using rw by (rule readyE) (simp add: drawables_def)
    ultimately have "length (drawables w) = 1" by (cases "drawables w") simp_all
    then show ?thesis using True by (simp add: compile_click_def)
  next
    case False
    define w0 where "w0 = cleanup (w\<lparr>fragmentShader := fragmentShaderTemp w\<rparr>)"
    have "ready App_tsx (w\<lparr>fragmentShader := fragmentShaderTemp w\<rparr>)"
      using rw by (rule ready_frame) simp_all
    then have r: "ready App_tsx w0" unfolding w0_def by (rule cleanup_ready)
    have f: "validation drv (fragmentShader w0) = Inr ()"
      using assms(2) by (simp add: w0_def cleanup_def update_scene_def)
    have cc: "compile_click App_tsx drv now w = effect App_tsx drv now w0"
      using False by (simp add: compile_click_def w0_def)
    show ?thesis unfolding cc using r f by (rule effect_ok_App_tsx)
  qed
qed

lemma App_tsx_compile_disposes_old_material_before_attaching:
  assumes "reachable App_tsx drv w" and "validation drv (fragmentShaderTemp w) = Inr ()"
    and "fragmentShaderTemp w \<noteq> fragmentShader w" and "drawables w = [Mesh n g (Single m) u]"
  shows "gpu_log (compile_click App_tsx drv now w) = gpu_log w @
     [SceneRemove (Mesh n g (Single m) u), MaterialDispose m,
      SceneAdd (Mesh ''quadX'' (geom w) (Single (length (materials w))) (Some (length (materials w))))]"
proof -
  define w0 where "w0 = cleanup (w\<lparr>fragmentShader := fragmentShaderTemp w\<rparr>)"
  have "page_inv App_tsx drv w" using assms(1) by (rule reachable_page_inv)
  then have "ready App_tsx w" by (simp add: page_inv_def)
  then have "ready App_tsx (w\<lparr>fragmentShader := fragmentShaderTemp w\<rparr>)"
    by (rule ready_frame) simp_all
  then have r: "ready App_tsx w0" unfolding w0_def by (rule cleanup_ready)
  have f: "validation drv (fragmentShader w0) = Inr ()"
    using assms(2) by (simp add: w0_def cleanup_def update_scene_def)
  have w0: "drawables w0 = drawables w" "gpu_log w0 = gpu_log w" "geom w0 = geom w" "materials w0 = materials w"
    by (simp_all add: w0_def cleanup_def update_scene_def drawables_def split: option.splits)
  have cc: "compile_click App_tsx drv now w = effect App_tsx drv now w0"
    using assms(3) by (simp add: compile_click_def w0_def)
  show ?thesis unfolding cc effect_ok_App_tsx(2) [OF r f] w0 assms(4) by simp
qed

text \<open>
  The call of \<^verbatim>\<open>switchScene\<close> in the constructor finds no scene and no WebGL renderer
  yet: it installs the empty scene and releases nothing.
\<close>

lemma switchScene_in_constructor:
  "gpu_log (Renderer_new p) = gpu_log p
   \<and> scene (renderer (Renderer_new p)) = Some \<lparr>scene_name = ''empty'', children = [], onDraw = None\<rparr>"
  by (simp add: Renderer_new_def switchScene_def recreateCamera_def Let_def SceneWithCallback_new_def)

end
